theory Spec2Isabelle
  imports Main
begin

section \<open>The world the script runs in\<close>

text \<open>
  The script \<^verbatim>\<open>setup.py\<close> drives external tools and reads the file system. Its
  functions are embedded as state transformers over a record of everything they can see
  or change: the file system, the working directory, the module's global flags, and the
  ordered trace of externally visible actions (lines printed, processes launched,
  sleeps, deletions).

  Paths are kept after normalisation, as the list of components below the root, so that
  the platform's separator plays no part in file-system lookups. A path name is either
  absolute or relative to the working directory; Python's empty string is the relative
  name with no component.
\<close>

type_synonym path = "string list"

datatype pathname = Abs path | Rel path

datatype node = File | Dir

type_synonym filesys = "path \<Rightarrow> node option"

datatype event =
    Print string
  | PrintHelp
  | Spawn string path
  | Sleep nat
  | Mkdir path
  | Remove path
  | Rmtree path
  | Chdir path

record world =
  fs :: filesys
  cwd :: path
  trace :: "event list"
  xcode_logging :: bool
  verbose :: bool
  overwrite :: bool
  librhino3dm_native_folder :: string

text \<open>
  What an external process does, as the script can observe it: the successive results of
  \<^verbatim>\<open>stdout.readline()\<close> and \<^verbatim>\<open>stderr.readline()\<close> (the empty string once a
  stream is exhausted), the number of times \<^verbatim>\<open>poll()\<close> still answers \<^verbatim>\<open>None\<close>,
  the exit status, and the file system it leaves behind.
\<close>

record process =
  stdout_lines :: "string list"
  stderr_lines :: "string list"
  alive_polls :: nat
  returncode :: int
  fs_after :: filesys

text \<open>
  The host: \<^verbatim>\<open>sys.platform\<close>, the major version of the interpreter, the folder of
  the script, which commands can be launched and what they do, the paths that refuse to
  be created or deleted, and, for a tree that cannot be removed whole, the entries the
  operating system gets to before it meets one that refuses.
\<close>

record host =
  platform :: string
  py_major :: nat
  script_folder :: path
  spawn :: "string \<Rightarrow> path \<Rightarrow> filesys \<Rightarrow> process option"
  denied_paths :: "path list"
  rmtree_progress :: "filesys \<Rightarrow> path \<Rightarrow> path list"
  msbuild_location :: string
  ndk_location :: string

definition denied :: "host \<Rightarrow> path \<Rightarrow> bool" where
  "denied h q = (q \<in> set (denied_paths h))"

datatype exn =
    FileNotFoundError
  | FileExistsError
  | NotADirectoryError
  | IsADirectoryError
  | PermissionError
  | TypeError
  | AttributeError
  | UnicodeDecodeError

datatype 'a outcome = Return 'a | SysExit nat | Raise exn

datatype pyval = PyNone | PyBool bool | PyInt int | PyDict "(string \<times> pyval) list"

type_synonym 'a prog = "world \<Rightarrow> 'a outcome \<times> world"

definition ret :: "'a \<Rightarrow> 'a prog" where
  "ret x = (\<lambda>w. (Return x, w))"

definition raise :: "exn \<Rightarrow> 'a prog" where
  "raise e = (\<lambda>w. (Raise e, w))"

definition sys_exit :: "nat \<Rightarrow> 'a prog" where
  "sys_exit n = (\<lambda>w. (SysExit n, w))"

definition seq :: "'a prog \<Rightarrow> ('a \<Rightarrow> 'b prog) \<Rightarrow> 'b prog" where
  "seq m f = (\<lambda>w. case m w of
                 (Return x, w') \<Rightarrow> f x w'
               | (SysExit n, w') \<Rightarrow> (SysExit n, w')
               | (Raise e, w') \<Rightarrow> (Raise e, w'))"

definition emit :: "event \<Rightarrow> unit prog" where
  "emit e = (\<lambda>w. (Return (), w\<lparr>trace := trace w @ [e]\<rparr>))"

definition is_OSError :: "exn \<Rightarrow> bool" where
  "is_OSError e = (e \<noteq> TypeError \<and> e \<noteq> AttributeError \<and> e \<noteq> UnicodeDecodeError)"

section \<open>Strings\<close>

definition backslash :: char where
  "backslash = CHR 0x5C"

definition is_space :: "char \<Rightarrow> bool" where
  "is_space c = (c \<in> set [CHR '' '', CHR 0x09, CHR 0x0A, CHR 0x0B, CHR 0x0C, CHR 0x0D])"

definition strip :: "string \<Rightarrow> string" where
  "strip s = rev (dropWhile is_space (rev (dropWhile is_space s)))"

text \<open>
  Output of a process is bytes. Python 2 prints the bytes, stripped of ASCII white space.
  Python 3 first decodes them as UTF-8, which fails on an ill-formed sequence, and strips
  Unicode white space. Decoded text is kept as the list of its characters, each in its
  UTF-8 encoding, so that what is printed is again a list of bytes.
\<close>

definition byte :: "char \<Rightarrow> nat" where
  "byte c = of_char c"

definition in_range :: "nat \<Rightarrow> nat \<Rightarrow> char \<Rightarrow> bool" where
  "in_range lo hi c = (lo \<le> byte c \<and> byte c \<le> hi)"

fun tail_ok :: "(nat \<times> nat) list \<Rightarrow> string \<Rightarrow> bool" where
  "tail_ok [] cs = True"
| "tail_ok (r # rs) [] = False"
| "tail_ok (r # rs) (c # cs) = (in_range (fst r) (snd r) c \<and> tail_ok rs cs)"

text \<open>The ranges the bytes after a given first byte must lie in (well-formed UTF-8).\<close>

definition utf8_tail :: "char \<Rightarrow> (nat \<times> nat) list option" where
  "utf8_tail c =
     (let b = byte c in
      if b < 128 then Some []
      else if 194 \<le> b \<and> b \<le> 223 then Some [(128, 191)]
      else if b = 224 then Some [(160, 191), (128, 191)]
      else if 225 \<le> b \<and> b \<le> 236 then Some [(128, 191), (128, 191)]
      else if b = 237 then Some [(128, 159), (128, 191)]
      else if 238 \<le> b \<and> b \<le> 239 then Some [(128, 191), (128, 191)]
      else if b = 240 then Some [(144, 191), (128, 191), (128, 191)]
      else if 241 \<le> b \<and> b \<le> 243 then Some [(128, 191), (128, 191), (128, 191)]
      else if b = 244 then Some [(128, 143), (128, 191), (128, 191)]
      else None)"

definition utf8_width :: "string \<Rightarrow> nat option" where
  "utf8_width s = (case s of
       [] \<Rightarrow> None
     | c # cs \<Rightarrow> (case utf8_tail c of
           None \<Rightarrow> None
         | Some rs \<Rightarrow> if tail_ok rs cs then Some (Suc (length rs)) else None))"

function decode_utf8 :: "string \<Rightarrow> string list option" where
  "decode_utf8 s =
     (if s = [] then Some []
      else case utf8_width s of
             None \<Rightarrow> None
           | Some k \<Rightarrow> map_option (Cons (take k s)) (decode_utf8 (drop k s)))"
  by pat_completeness auto
termination
  by (relation "measure length")
    (auto simp: utf8_width_def split: list.splits option.splits if_splits)

declare decode_utf8.simps [simp del]

text \<open>The characters \<^verbatim>\<open>str.strip()\<close> removes, in UTF-8.\<close>

definition unicode_spaces :: "string list" where
  "unicode_spaces =
     [[CHR 0x09], [CHR 0x0A], [CHR 0x0B], [CHR 0x0C], [CHR 0x0D],
      [CHR 0x1C], [CHR 0x1D], [CHR 0x1E], [CHR 0x1F], [CHR 0x20],
      [CHR 0xC2, CHR 0x85], [CHR 0xC2, CHR 0xA0], [CHR 0xE1, CHR 0x9A, CHR 0x80],
      [CHR 0xE2, CHR 0x80, CHR 0x80], [CHR 0xE2, CHR 0x80, CHR 0x81],
      [CHR 0xE2, CHR 0x80, CHR 0x82], [CHR 0xE2, CHR 0x80, CHR 0x83],
      [CHR 0xE2, CHR 0x80, CHR 0x84], [CHR 0xE2, CHR 0x80, CHR 0x85],
      [CHR 0xE2, CHR 0x80, CHR 0x86], [CHR 0xE2, CHR 0x80, CHR 0x87],
      [CHR 0xE2, CHR 0x80, CHR 0x88], [CHR 0xE2, CHR 0x80, CHR 0x89],
      [CHR 0xE2, CHR 0x80, CHR 0x8A], [CHR 0xE2, CHR 0x80, CHR 0xA8],
      [CHR 0xE2, CHR 0x80, CHR 0xA9], [CHR 0xE2, CHR 0x80, CHR 0xAF],
      [CHR 0xE2, CHR 0x81, CHR 0x9F], [CHR 0xE3, CHR 0x80, CHR 0x80]]"

definition str_strip :: "string list \<Rightarrow> string list" where
  "str_strip cs =
     rev (dropWhile (\<lambda>c. c \<in> set unicode_spaces)
            (rev (dropWhile (\<lambda>c. c \<in> set unicode_spaces) cs)))"

definition upper_letters :: string where
  "upper_letters = ''ABCDEFGHIJKLMNOPQRSTUVWXYZ''"

definition lower_letters :: string where
  "lower_letters = ''abcdefghijklmnopqrstuvwxyz''"

definition lower_char :: "char \<Rightarrow> char" where
  "lower_char c = (case map_of (zip upper_letters lower_letters) c of Some d \<Rightarrow> d | None \<Rightarrow> c)"

definition upper_char :: "char \<Rightarrow> char" where
  "upper_char c = (case map_of (zip lower_letters upper_letters) c of Some d \<Rightarrow> d | None \<Rightarrow> c)"

definition lower :: "string \<Rightarrow> string" where
  "lower s = map lower_char s"

definition upper :: "string \<Rightarrow> string" where
  "upper s = map upper_char s"

fun join_with :: "string \<Rightarrow> string list \<Rightarrow> string" where
  "join_with sep [] = []"
| "join_with sep [x] = x"
| "join_with sep (x # y # ys) = x @ sep @ join_with sep (y # ys)"

definition flip_separators :: "string \<Rightarrow> string" where
  "flip_separators s = concat (map (\<lambda>c. if c = backslash then ''//'' else [c]) s)"

section \<open>The operating-system calls the script makes\<close>

text \<open>
  \<^verbatim>\<open>os.path.join\<close> with a plain component, \<^verbatim>\<open>os.path.abspath\<close>, and the
  rendering of a path as the text that goes into messages and command lines.
\<close>

definition os_path_join :: "pathname \<Rightarrow> string \<Rightarrow> pathname" where
  "os_path_join p c = (case p of Abs q \<Rightarrow> Abs (q @ [c]) | Rel q \<Rightarrow> Rel (q @ [c]))"

definition resolve :: "path \<Rightarrow> pathname \<Rightarrow> path" where
  "resolve d p = (case p of Abs q \<Rightarrow> q | Rel q \<Rightarrow> d @ q)"

definition os_path_abspath :: "pathname \<Rightarrow> pathname prog" where
  "os_path_abspath p = (\<lambda>w. (Return (Abs (resolve (cwd w) p)), w))"

definition is_windows :: "host \<Rightarrow> bool" where
  "is_windows h = (platform h = ''win32'' \<or> platform h = ''win64'')"

definition os_sep :: "host \<Rightarrow> string" where
  "os_sep h = (if is_windows h then [backslash] else ''/'')"

definition path_text :: "host \<Rightarrow> pathname \<Rightarrow> string" where
  "path_text h p = (case p of
       Abs q \<Rightarrow> (if is_windows h then [] else ''/'') @ join_with (os_sep h) q
     | Rel q \<Rightarrow> join_with (os_sep h) q)"

definition ends_with :: "string \<Rightarrow> string \<Rightarrow> bool" where
  "ends_with s t = (length t \<le> length s \<and> drop (length s - length t) s = t)"

text \<open>\<^verbatim>\<open>os.path.join\<close> on the text of a path that comes from outside (the NDK location).\<close>

definition join_text :: "host \<Rightarrow> string \<Rightarrow> string \<Rightarrow> string" where
  "join_text h a b = (if a = [] \<or> ends_with a (os_sep h) then a @ b else a @ os_sep h @ b)"

text \<open>
  The empty name denotes nothing: \<^verbatim>\<open>os.path.exists('')\<close> is false, and
  \<^verbatim>\<open>os.mkdir('')\<close> and \<^verbatim>\<open>os.chdir('')\<close> raise \<^verbatim>\<open>FileNotFoundError\<close>.
\<close>

definition node_at :: "world \<Rightarrow> pathname \<Rightarrow> node option" where
  "node_at w p = (if p = Rel [] then None else fs w (resolve (cwd w) p))"

definition path_exists :: "world \<Rightarrow> pathname \<Rightarrow> bool" where
  "path_exists w p = (node_at w p \<noteq> None)"

definition os_path_exists :: "pathname \<Rightarrow> bool prog" where
  "os_path_exists p = (\<lambda>w. (Return (path_exists w p), w))"

definition os_path_isfile :: "pathname \<Rightarrow> bool prog" where
  "os_path_isfile p = (\<lambda>w. (Return (node_at w p = Some File), w))"

definition os_path_isdir :: "pathname \<Rightarrow> bool prog" where
  "os_path_isdir p = (\<lambda>w. (Return (node_at w p = Some Dir), w))"

definition os_mkdir :: "host \<Rightarrow> pathname \<Rightarrow> unit prog" where
  "os_mkdir h p = (\<lambda>w.
     let q = resolve (cwd w) p in
     if p = Rel [] then (Raise FileNotFoundError, w)
     else if fs w q \<noteq> None then (Raise FileExistsError, w)
     else if q = [] \<or> fs w (butlast q) = None then (Raise FileNotFoundError, w)
     else if fs w (butlast q) = Some File then (Raise NotADirectoryError, w)
     else if denied h q then (Raise PermissionError, w)
     else (Return (), w\<lparr>fs := (fs w)(q \<mapsto> Dir), trace := trace w @ [Mkdir q]\<rparr>))"

definition os_remove :: "host \<Rightarrow> pathname \<Rightarrow> unit prog" where
  "os_remove h p = (\<lambda>w.
     let q = resolve (cwd w) p in
     case node_at w p of
       None \<Rightarrow> (Raise FileNotFoundError, w)
     | Some Dir \<Rightarrow> (Raise IsADirectoryError, w)
     | Some File \<Rightarrow>
         if denied h q then (Raise PermissionError, w)
         else (Return (), w\<lparr>fs := (fs w)(q := None), trace := trace w @ [Remove q]\<rparr>))"

text \<open>
  \<^verbatim>\<open>shutil.rmtree\<close> removes the entries of a tree one by one and raises at the
  first one that refuses. The tree goes whole when no entry in it refuses. Otherwise
  what was removed before the failure depends on the order in which the operating
  system lists the entries; it is never the top directory, an entry that refuses, or
  anything outside the tree.
\<close>

definition under :: "path \<Rightarrow> path \<Rightarrow> bool" where
  "under q r = (take (length q) r = q)"

definition rmtree_blocked :: "host \<Rightarrow> filesys \<Rightarrow> path \<Rightarrow> bool" where
  "rmtree_blocked h f q = list_ex (\<lambda>r. under q r \<and> f r \<noteq> None) (denied_paths h)"

definition rmtree_partial :: "host \<Rightarrow> filesys \<Rightarrow> path \<Rightarrow> filesys" where
  "rmtree_partial h f q =
     (\<lambda>r. if r \<in> set (rmtree_progress h f q) \<and> under q r \<and> r \<noteq> q \<and> r \<notin> set (denied_paths h)
          then None else f r)"

definition shutil_rmtree :: "host \<Rightarrow> pathname \<Rightarrow> unit prog" where
  "shutil_rmtree h p = (\<lambda>w.
     let q = resolve (cwd w) p in
     case node_at w p of
       None \<Rightarrow> (Raise FileNotFoundError, w)
     | Some File \<Rightarrow> (Raise NotADirectoryError, w)
     | Some Dir \<Rightarrow>
         if rmtree_blocked h (fs w) q
         then (Raise PermissionError, w\<lparr>fs := rmtree_partial h (fs w) q\<rparr>)
         else (Return (), w\<lparr>fs := (\<lambda>r. if under q r then None else fs w r),
                               trace := trace w @ [Rmtree q]\<rparr>))"

definition os_chdir :: "pathname \<Rightarrow> unit prog" where
  "os_chdir p = (\<lambda>w.
     let q = resolve (cwd w) p in
     case node_at w p of
       None \<Rightarrow> (Raise FileNotFoundError, w)
     | Some File \<Rightarrow> (Raise NotADirectoryError, w)
     | Some Dir \<Rightarrow> (Return (), w\<lparr>cwd := q, trace := trace w @ [Chdir q]\<rparr>))"

definition time_sleep :: "nat \<Rightarrow> unit prog" where
  "time_sleep n = emit (Sleep n)"

definition py_print :: "string \<Rightarrow> unit prog" where
  "py_print s = emit (Print s)"

text \<open>
  \<^verbatim>\<open>subprocess.Popen(shlex.split(command), ...)\<close>: the command is launched in the
  working directory, or the launch raises an \<^verbatim>\<open>OSError\<close> when the host cannot
  start it. What the process does to the file system is taken to be in place when the
  script next looks.
\<close>

definition popen :: "host \<Rightarrow> string \<Rightarrow> process prog" where
  "popen h command = (\<lambda>w.
     case spawn h command (cwd w) (fs w) of
       None \<Rightarrow> (Raise FileNotFoundError, w)
     | Some pr \<Rightarrow> (Return pr, w\<lparr>fs := fs_after pr,
                                   trace := trace w @ [Spawn command (cwd w)]\<rparr>))"

section \<open>Globals and logging\<close>

definition valid_platform_args :: "string list" where
  "valid_platform_args = [''js'', ''ios'', ''macos'', ''android'', ''windows'']"

definition platform_full_names :: "string \<rightharpoonup> string" where
  "platform_full_names = map_of
     [(''js'', ''JavaScript''), (''ios'', ''iOS''), (''macos'', ''macOS''),
      (''android'', ''Android''), (''windows'', ''Windows'')]"

definition src_folder :: "host \<Rightarrow> path" where
  "src_folder h = butlast (script_folder h) @ [''src'']"

definition build_folder :: "host \<Rightarrow> path" where
  "build_folder h = src_folder h @ [''build'']"

definition initial_native_folder :: "host \<Rightarrow> string" where
  "initial_native_folder h = path_text h (Abs (src_folder h @ [''librhino3dm_native'']))"

definition esc :: char where
  "esc = CHR 0x1B"

definition OKBLUE :: string where
  "OKBLUE = esc # ''[94m''"

definition FAIL :: string where
  "FAIL = esc # ''[91m''"

definition ENDC :: string where
  "ENDC = esc # ''[0m''"

definition BOLD :: string where
  "BOLD = esc # ''[1m''"

definition warning_text :: "bool \<Rightarrow> string \<Rightarrow> string" where
  "warning_text xc warning_message =
     (let warning_prefix = '' warning: '' in
      if xc then warning_prefix @ warning_message
      else BOLD @ FAIL @ upper warning_prefix @ ENDC @ FAIL @ warning_message @ ENDC)"

definition error_text :: "bool \<Rightarrow> string \<Rightarrow> string" where
  "error_text xc error_message =
     (let error_prefix = '' error: '' in
      if xc then error_prefix @ error_message
      else BOLD @ FAIL @ upper error_prefix @ ENDC @ FAIL @ error_message @ ENDC)"

definition ok_text :: "bool \<Rightarrow> string \<Rightarrow> string" where
  "ok_text xc ok_message =
     (let ok_prefix = '' ok: '' in
      if xc then ok_prefix @ ok_message
      else BOLD @ OKBLUE @ upper ok_prefix @ ENDC @ OKBLUE @ ok_message @ ENDC)"

definition bold_text :: "bool \<Rightarrow> string \<Rightarrow> string" where
  "bold_text xc s = (if xc then s else BOLD @ s @ ENDC)"

definition print_warning_message :: "string \<Rightarrow> unit prog" where
  "print_warning_message m = (\<lambda>w. py_print (warning_text (xcode_logging w) m) w)"

definition print_error_message :: "string \<Rightarrow> unit prog" where
  "print_error_message m = (\<lambda>w. py_print (error_text (xcode_logging w) m) w)"

definition print_ok_message :: "string \<Rightarrow> unit prog" where
  "print_ok_message m = (\<lambda>w. py_print (ok_text (xcode_logging w) m) w)"

definition print_bold :: "string \<Rightarrow> unit prog" where
  "print_bold m = (\<lambda>w. py_print (bold_text (xcode_logging w) m) w)"

section \<open>Command runner\<close>

definition readline :: "string list \<Rightarrow> string" where
  "readline ls = (case ls of [] \<Rightarrow> [] | l # _ \<Rightarrow> l)"

text \<open>\<^verbatim>\<open>bytes.decode('utf-8')\<close>, which raises on ill-formed input.\<close>

definition decode :: "string \<Rightarrow> string list prog" where
  "decode bs = (case decode_utf8 bs of
       None \<Rightarrow> raise UnicodeDecodeError
     | Some cs \<Rightarrow> ret cs)"

text \<open>
  The loop of \<^verbatim>\<open>run_command\<close>. Each round reads a line of standard output, then
  polls; the last argument counts the rounds in which the process is still running.
  The local \<^verbatim>\<open>verbose\<close> is always true, so every line read is echoed.
\<close>

fun run_command_loop :: "host \<Rightarrow> bool \<Rightarrow> string list \<Rightarrow> string list \<Rightarrow> nat \<Rightarrow> unit prog" where
  "run_command_loop h suppress_errors out err 0 = ret ()"
| "run_command_loop h suppress_errors out err (Suc n) =
     (let line = readline out in
      if line \<noteq> [] then
        (if py_major h < 3 then
           seq (py_print (strip line)) (\<lambda>_.
           run_command_loop h suppress_errors (tl out) err n)
         else
           seq (decode line) (\<lambda>cs.
           seq (py_print (concat (str_strip cs))) (\<lambda>_.
           run_command_loop h suppress_errors (tl out) err n)))
      else if \<not> suppress_errors then
        (let error = readline err in
         if error \<noteq> [] then
           (if py_major h < 3 then
              seq (print_error_message (strip error)) (\<lambda>_. sys_exit 1)
            else
              seq (decode error) (\<lambda>cs.
              seq (print_error_message (concat (str_strip cs))) (\<lambda>_. sys_exit 1)))
         else run_command_loop h suppress_errors (tl out) (tl err) n)
      else run_command_loop h suppress_errors (tl out) err n)"

definition run_command :: "host \<Rightarrow> string \<Rightarrow> bool \<Rightarrow> int prog" where
  "run_command h command suppress_errors =
     seq (popen h command) (\<lambda>pr.
     seq (run_command_loop h suppress_errors (stdout_lines pr) (stderr_lines pr)
            (alive_polls pr)) (\<lambda>_.
     ret (returncode pr)))"

section \<open>Platform setup\<close>

definition print_platform_preamble :: "string \<Rightarrow> unit prog" where
  "print_platform_preamble platform_target_name =
     seq (py_print []) (\<lambda>_.
     print_bold (''Setting up '' @ platform_target_name @ ''...''))"

text \<open>The bare \<^verbatim>\<open>except:\<close> catches whatever ends the guarded block.\<close>

definition check_or_create_path :: "host \<Rightarrow> pathname \<Rightarrow> pathname prog" where
  "check_or_create_path h target_path = (\<lambda>w.
     case seq (os_path_exists target_path) (\<lambda>ex.
            if \<not> ex then os_mkdir h target_path else ret ()) w of
       (Return _, w') \<Rightarrow> (Return target_path, w')
     | (SysExit _, w') \<Rightarrow> (Return (Rel []), w')
     | (Raise _, w') \<Rightarrow> (Return (Rel []), w'))"

definition overwrite_check :: "host \<Rightarrow> pathname \<Rightarrow> bool prog" where
  "overwrite_check h item_to_check =
     seq (os_path_exists item_to_check) (\<lambda>ex.
     if ex then
       (\<lambda>w. if \<not> overwrite w then
               seq (print_warning_message (''A configuration already appears in '' @
                      path_text h item_to_check @ ''. Use --overwrite to replace.''))
                   (\<lambda>_. ret False) w
             else
               seq (seq (os_path_isfile item_to_check) (\<lambda>f.
                      if f then os_remove h item_to_check else ret ())) (\<lambda>_.
               seq (seq (os_path_isdir item_to_check) (\<lambda>d.
                      if d then seq (shutil_rmtree h item_to_check) (\<lambda>_. time_sleep 2)
                      else ret ())) (\<lambda>_.
               ret True)) w)
     else ret True)"

definition setup_did_succeed :: "host \<Rightarrow> pathname \<Rightarrow> bool prog" where
  "setup_did_succeed h item_to_check =
     seq (os_path_exists item_to_check) (\<lambda>ex.
     if ex then
       seq (print_ok_message (''successfully wrote: '' @ path_text h item_to_check)) (\<lambda>_. ret True)
     else
       seq (print_error_message (''failed to configure and generate '' @ path_text h item_to_check))
           (\<lambda>_. ret False))"

text \<open>
  Modelled from the spec: \<^verbatim>\<open>bootstrap.py\<close> (\<^verbatim>\<open>read_required_versions\<close>,
  \<^verbatim>\<open>check_msbuild\<close>, \<^verbatim>\<open>check_ndk\<close>) is loaded by the script but is not part of
  the sources at hand. The spec describes it as a toolchain-resolution provider exposing
  \<^verbatim>\<open>required_versions() -> mapping\<close> and \<^verbatim>\<open>locate(tool_name) -> path\<close>; the located
  paths are parameters of the host.
\<close>

definition bootstrap_check_msbuild :: "host \<Rightarrow> string" where
  "bootstrap_check_msbuild h = msbuild_location h"

definition bootstrap_check_ndk :: "host \<Rightarrow> string" where
  "bootstrap_check_ndk h = ndk_location h"

definition appease :: "host \<Rightarrow> string \<Rightarrow> string" where
  "appease h s = (if is_windows h then flip_separators s else s)"

definition build_methodgen :: "host \<Rightarrow> bool prog" where
  "build_methodgen h =
     seq (print_bold '' Building MethodGen...'') (\<lambda>_.
     seq (os_path_abspath
            (os_path_join (os_path_join (Abs (src_folder h)) ''methodgen'') ''methodgen.csproj''))
         (\<lambda>path_to_methodgen_csproj.
     let msbuild_path = (if is_windows h then flip_separators (bootstrap_check_msbuild h)
                         else ''msbuild'');
         command = msbuild_path @ '' '' @ appease h (path_text h path_to_methodgen_csproj) @
                   '' /p:Configuration=Release''
     in
     seq (run_command h command False) (\<lambda>_.
     seq (os_path_abspath (os_path_join (Abs (src_folder h)) ''MethodGen.exe'')) (\<lambda>item_to_check.
     seq (os_path_exists item_to_check) (\<lambda>ex.
     if ex then
       seq (print_ok_message (''successfully built: '' @ path_text h item_to_check)) (\<lambda>_. ret True)
     else
       seq (print_error_message (''failed to build '' @ path_text h item_to_check @
                                 '' for macOS build'')) (\<lambda>_. ret False))))))"

definition methodgen_command :: "host \<Rightarrow> world \<Rightarrow> pathname \<Rightarrow> pathname \<Rightarrow> string" where
  "methodgen_command h w path_to_methodgen_exe path_to_cs =
     (if platform h = ''darwin'' then ''mono '' else []) @
     appease h (path_text h path_to_methodgen_exe) @ '' '' @
     appease h (librhino3dm_native_folder w) @ '' '' @
     appease h (path_text h path_to_cs) @ '' '' @ ''../lib/opennurbs'' @ '' rhino3dm''"

definition run_methodgen :: "host \<Rightarrow> pyval prog" where
  "run_methodgen h =
     seq (print_bold '' Running MethodGen...'') (\<lambda>_.
     seq (os_path_abspath (os_path_join (Abs (src_folder h)) ''MethodGen.exe''))
         (\<lambda>path_to_methodgen_exe.
     seq (os_path_exists path_to_methodgen_exe) (\<lambda>found.
     if \<not> found then
       seq (print_error_message ''MethodGen.exe not found.'') (\<lambda>_. ret (PyBool False))
     else
       seq (os_path_abspath (os_path_join (Abs (src_folder h)) ''dotnet'')) (\<lambda>path_to_cs.
       seq (os_path_abspath (os_path_join path_to_cs ''AutoNativeMethods.cs'')) (\<lambda>item_to_check.
       seq (seq (os_path_exists item_to_check) (\<lambda>stale.
              if stale then os_remove h item_to_check else ret ())) (\<lambda>_.
       seq (\<lambda>w. run_command h (methodgen_command h w path_to_methodgen_exe path_to_cs) False w)
           (\<lambda>_.
       seq (os_path_exists item_to_check) (\<lambda>ex.
       if ex then
         seq (print_ok_message (''successfully generated: '' @ path_text h item_to_check))
             (\<lambda>_. ret PyNone)
       else
         seq (print_error_message (''failed to generate '' @ path_text h item_to_check @
                                   '' for macOS build'')) (\<lambda>_. ret (PyBool False))))))))))"

definition full_name_lower :: "string \<Rightarrow> string prog" where
  "full_name_lower key = (case platform_full_names key of
       None \<Rightarrow> raise AttributeError
     | Some n \<Rightarrow> ret (lower n))"

definition macos_command :: "world \<Rightarrow> string" where
  \<open>macos_command w = ''cmake -G "Xcode" -DMACOS_BUILD=1 '' @ librhino3dm_native_folder w\<close>

definition setup_macos :: "host \<Rightarrow> pyval prog" where
  "setup_macos h =
     (if platform h \<noteq> ''darwin'' then
        seq (print_error_message
               ''Generating project file for macOS requires that you run this script on macOS'')
            (\<lambda>_. ret (PyBool False))
      else
        seq (full_name_lower ''macos'') (\<lambda>name.
        seq (check_or_create_path h (os_path_join (Abs (build_folder h)) name)) (\<lambda>target_path.
        seq (os_path_abspath (os_path_join target_path ''librhino3dm_native.xcodeproj''))
            (\<lambda>item_to_check.
        seq (overwrite_check h item_to_check) (\<lambda>go.
        if \<not> go then ret (PyBool False)
        else
          seq (os_chdir target_path) (\<lambda>_.
          seq (py_print []) (\<lambda>_.
          seq (print_bold ''Generating xcodeproj files for macOS...'') (\<lambda>_.
          seq (\<lambda>w. run_command h (macos_command w) False w) (\<lambda>_.
          seq (build_methodgen h) (\<lambda>_.
          seq (run_methodgen h) (\<lambda>_.
          seq (setup_did_succeed h item_to_check) (\<lambda>b. ret (PyBool b)))))))))))))"

definition ios_command :: "world \<Rightarrow> string" where
  \<open>ios_command w =
     ''cmake -G "Xcode" -DCMAKE_TOOLCHAIN_FILE=../../src/ios.toolchain.cmake -DPLATFORM=OS64COMBINED '' @
     ''-DDEPLOYMENT_TARGET=9.3 '' @ librhino3dm_native_folder w\<close>

definition setup_ios :: "host \<Rightarrow> pyval prog" where
  "setup_ios h =
     (if platform h \<noteq> ''darwin'' then
        seq (print_error_message
               ''Generating project file for iOS requires that you run this script on macOS'')
            (\<lambda>_. ret (PyBool False))
      else
        seq (full_name_lower ''ios'') (\<lambda>name.
        seq (check_or_create_path h (os_path_join (Abs (build_folder h)) name)) (\<lambda>target_path.
        seq (os_path_abspath (os_path_join target_path ''librhino3dm_native.xcodeproj''))
            (\<lambda>item_to_check.
        seq (overwrite_check h item_to_check) (\<lambda>go.
        if \<not> go then ret (PyBool False)
        else
          seq (os_chdir target_path) (\<lambda>_.
          seq (py_print []) (\<lambda>_.
          seq (print_bold ''Generating xcodeproj files for iOS...'') (\<lambda>_.
          seq (\<lambda>w. run_command h (ios_command w) False w) (\<lambda>_.
          seq (build_methodgen h) (\<lambda>_.
          seq (run_methodgen h) (\<lambda>_.
          seq (setup_did_succeed h item_to_check) (\<lambda>b. ret (PyBool b)))))))))))))"

definition js_command :: "host \<Rightarrow> string" where
  \<open>js_command h =
     ''emcmake cmake -DCMAKE_CXX_FLAGS="-s MODULARIZE=1 -s '' @ [CHR 0x27] @ ''EXPORT_NAME='' @
     [backslash] @ ''"rhino3dm'' @ [backslash] @ ''"'' @ [CHR 0x27] @ ''" '' @
     path_text h (Abs (src_folder h))\<close>

definition setup_js :: "host \<Rightarrow> pyval prog" where
  "setup_js h =
     seq (full_name_lower ''js'') (\<lambda>name.
     seq (check_or_create_path h (os_path_join (Abs (build_folder h)) name)) (\<lambda>target_path.
     seq (os_path_abspath (os_path_join target_path ''Makefile'')) (\<lambda>item_to_check.
     seq (overwrite_check h item_to_check) (\<lambda>go.
     if \<not> go then ret (PyBool False)
     else
       seq (os_chdir target_path) (\<lambda>_.
       (\<lambda>w. case popen h (js_command h) w of
          (Raise e, w') \<Rightarrow>
            if is_OSError e then
              seq (print_error_message
                     ''could not find emcmake command.  Run the bootstrap.py --check emscripten'')
                  (\<lambda>_. ret (PyBool False)) w'
            else (Raise e, w')
        | (SysExit n, w') \<Rightarrow> (SysExit n, w')
        | (Return p, w') \<Rightarrow>
            (let output = concat (stdout_lines p); err = concat (stderr_lines p) in
             seq (if py_major h < 3 then
                    (if output \<noteq> [] then (if verbose w' then py_print output else ret ())
                     else print_error_message ''failed to run emcmake cmake.'')
                  else
                    seq (decode output) (\<lambda>output.
                    seq (decode err) (\<lambda>err.
                    if output \<noteq> [] then (if verbose w' then py_print (concat output) else ret ())
                    else if err \<noteq> [] then print_error_message (concat err)
                    else ret ()))) (\<lambda>_.
             seq (setup_did_succeed h item_to_check) (\<lambda>b. ret (PyBool b)))) w'))))))"

definition app_abis :: "string list" where
  "app_abis = [''armeabi-v7a'', ''arm64-v8a'', ''x86_64'', ''x86'']"

definition android_command :: "string \<Rightarrow> string \<Rightarrow> world \<Rightarrow> string" where
  "android_command android_toolchain_path app_abi w =
     ''cmake -DCMAKE_TOOLCHAIN_FILE='' @ android_toolchain_path @ '' -DANDROID_ABI='' @ app_abi @
     '' -DANDROID_PLATFORM=android-24 -DCMAKE_ANDROID_STL_TYPE=c++_shared '' @
     librhino3dm_native_folder w"

text \<open>
  The loop over the ABIs. The result is \<open>Some v\<close> when the body executed
  \<^verbatim>\<open>return v\<close>, and \<open>None\<close> when the loop was left by \<^verbatim>\<open>break\<close> or ran out of
  variants; in both of the latter cases the function goes on after the loop.
\<close>

fun android_abis :: "host \<Rightarrow> string \<Rightarrow> pathname \<Rightarrow> string list \<Rightarrow> pyval option prog" where
  "android_abis h android_toolchain_path target_path [] = ret None"
| "android_abis h android_toolchain_path target_path (app_abi # rest) =
     seq (check_or_create_path h (os_path_join target_path app_abi)) (\<lambda>abi_target_path.
     seq (os_path_abspath (os_path_join abi_target_path ''Makefile'')) (\<lambda>item_to_check.
     seq (overwrite_check h item_to_check) (\<lambda>go.
     if \<not> go then ret (Some (PyBool False))
     else
       seq (os_chdir abi_target_path) (\<lambda>_.
       seq (py_print []) (\<lambda>_.
       seq (\<lambda>w. py_print (if xcode_logging w
                            then ''Generating Makefile for Android ('' @ app_abi @ '')...''
                            else BOLD @ ''Generating Makefile Android ('' @ app_abi @ '')...'' @ ENDC) w)
           (\<lambda>_.
       seq (\<lambda>w. run_command h (android_command android_toolchain_path app_abi w) False w) (\<lambda>_.
       seq (time_sleep 2) (\<lambda>_.
       seq (setup_did_succeed h item_to_check) (\<lambda>b.
       if \<not> b then ret None
       else android_abis h android_toolchain_path target_path rest)))))))))"

definition setup_android :: "host \<Rightarrow> pyval prog" where
  "setup_android h =
     (let android_ndk_path = bootstrap_check_ndk h;
          android_toolchain_path =
            join_text h (join_text h (join_text h android_ndk_path ''build'') ''cmake'')
                      ''android.toolchain.cmake''
      in
      seq (full_name_lower ''android'') (\<lambda>name.
      seq (check_or_create_path h (os_path_join (Abs (build_folder h)) name)) (\<lambda>target_path.
      seq (android_abis h android_toolchain_path target_path app_abis) (\<lambda>r.
      case r of
        Some v \<Rightarrow> ret v
      | None \<Rightarrow>
          seq (build_methodgen h) (\<lambda>_.
          seq (run_methodgen h) (\<lambda>_.
          ret PyNone))))))"

definition windows_command :: "world \<Rightarrow> string" where
  \<open>windows_command w = ''cmake -G "Visual Studio 15 2017" '' @ librhino3dm_native_folder w\<close>

definition setup_windows :: "host \<Rightarrow> pyval prog" where
  "setup_windows h =
     (if platform h \<noteq> ''win32'' \<and> platform h \<noteq> ''win64'' then
        seq (print_error_message
               ''Generating project file for Windows requires that you run this script on Windows'')
            (\<lambda>_. ret (PyBool False))
      else
        seq (full_name_lower ''windows'') (\<lambda>name.
        seq (check_or_create_path h (os_path_join (Abs (build_folder h)) name)) (\<lambda>target_path.
        seq (os_path_abspath (os_path_join target_path ''librhino3dm_native.vcxproj''))
            (\<lambda>item_to_check.
        seq (overwrite_check h item_to_check) (\<lambda>go.
        if \<not> go then ret (PyBool False)
        else
          seq (os_chdir target_path) (\<lambda>_.
          seq (py_print []) (\<lambda>_.
          seq (\<lambda>w. py_print (if xcode_logging w
                               then ''Generating vcxproj files for Windows native build...''
                               else BOLD @ ''Generating vcxproj files for Windows native build'' @ ENDC) w)
              (\<lambda>_.
          seq (\<lambda>w. (Return (), w\<lparr>librhino3dm_native_folder :=
                                     flip_separators (librhino3dm_native_folder w)\<rparr>)) (\<lambda>_.
          seq (\<lambda>w. run_command h (windows_command w) False w) (\<lambda>_.
          seq (build_methodgen h) (\<lambda>_.
          seq (run_methodgen h) (\<lambda>_.
          seq (setup_did_succeed h item_to_check) (\<lambda>b. ret (PyBool b))))))))))))))"

section \<open>Dispatch\<close>

text \<open>
  \<^verbatim>\<open>getattr(sys.modules[__name__], 'setup_' + target)()\<close>: the module's attribute of
  that name, called with no argument. The two other attributes whose names start with
  \<^verbatim>\<open>setup_\<close> take an argument, so calling them so raises \<^verbatim>\<open>TypeError\<close>.
\<close>

definition call_setup :: "host \<Rightarrow> string \<Rightarrow> pyval prog" where
  "call_setup h target =
     (let name = ''setup_'' @ target in
      if name = ''setup_js'' then setup_js h
      else if name = ''setup_ios'' then setup_ios h
      else if name = ''setup_macos'' then setup_macos h
      else if name = ''setup_android'' then setup_android h
      else if name = ''setup_windows'' then setup_windows h
      else if name = ''setup_handler'' \<or> name = ''setup_did_succeed'' then raise TypeError
      else raise AttributeError)"

definition setup_target :: "host \<Rightarrow> string \<Rightarrow> pyval prog" where
  "setup_target h target =
     seq (case platform_full_names target of
            None \<Rightarrow> raise TypeError
          | Some n \<Rightarrow> print_platform_preamble n) (\<lambda>_.
     call_setup h target)"

fun setup_each :: "host \<Rightarrow> string list \<Rightarrow> unit prog" where
  "setup_each h [] = ret ()"
| "setup_each h (target # rest) = seq (setup_target h target) (\<lambda>_. setup_each h rest)"

definition setup_handler :: "host \<Rightarrow> string \<Rightarrow> pyval prog" where
  "setup_handler h platform_target =
     seq (seq (os_path_exists (Abs (build_folder h))) (\<lambda>ex.
            if \<not> ex then os_mkdir h (Abs (build_folder h)) else ret ())) (\<lambda>_.
     if platform_target = ''all'' then
       seq (setup_each h valid_platform_args) (\<lambda>_. ret PyNone)
     else
       seq (setup_target h platform_target) (\<lambda>_. ret PyNone))"

definition delete_cache_file :: "host \<Rightarrow> unit prog" where
  "delete_cache_file h =
     (let path_to_bootstrapc_file = os_path_join (Abs (script_folder h)) ''bootstrap.pyc'' in
      seq (os_path_exists path_to_bootstrapc_file) (\<lambda>ex.
      if ex then os_remove h path_to_bootstrapc_file else ret ()))"

section \<open>Main\<close>

text \<open>
  The command line as \<^verbatim>\<open>argparse\<close> hands it over: the names after
  \<^verbatim>\<open>--platform\<close> (absent, or at least one), the three switches, and the length of
  \<^verbatim>\<open>sys.argv\<close>.
\<close>

record args =
  arg_platform :: "string list option"
  arg_verbose :: bool
  arg_overwrite :: bool
  arg_xcodelog :: bool
  argc :: nat

definition invalid_platform_text :: "string \<Rightarrow> string" where
  "invalid_platform_text platform_target =
     platform_target @ '' is not a valid platform argument. valid tool arguments: all, '' @
     join_with '', '' valid_platform_args @ ''.''"

fun main_platforms :: "host \<Rightarrow> string list \<Rightarrow> unit prog" where
  "main_platforms h [] = ret ()"
| "main_platforms h (platform_target # rest) =
     (if platform_target \<noteq> ''all'' \<and> platform_target \<notin> set valid_platform_args then
        seq (print_error_message (invalid_platform_text platform_target)) (\<lambda>_. sys_exit 1)
      else
        seq (setup_handler h platform_target) (\<lambda>_. main_platforms h rest))"

definition main :: "host \<Rightarrow> args \<Rightarrow> pyval prog" where
  "main h a =
     (if argc a = 1 then seq (emit PrintHelp) (\<lambda>_. sys_exit 1)
      else
        seq (\<lambda>w. (Return (), w\<lparr>xcode_logging := (arg_xcodelog a \<or> platform h = ''win32''),
                                 verbose := arg_verbose a,
                                 overwrite := arg_overwrite a\<rparr>)) (\<lambda>_.
        seq (os_chdir (Abs (script_folder h))) (\<lambda>_.
        seq (case arg_platform a of
               None \<Rightarrow> ret ()
             | Some names \<Rightarrow> main_platforms h names) (\<lambda>_.
        seq (delete_cache_file h) (\<lambda>_.
        ret PyNone)))))"

section \<open>Observations on traces\<close>

text \<open>The processes launched so far, each with the directory it was launched in.\<close>

fun spawned_in :: "event list \<Rightarrow> (string \<times> path) list" where
  "spawned_in [] = []"
| "spawned_in (Spawn c d # es) = (c, d) # spawned_in es"
| "spawned_in (_ # es) = spawned_in es"

definition spawned :: "world \<Rightarrow> (string \<times> path) list" where
  "spawned w = spawned_in (trace w)"

text \<open>What the script prints for a line of process output, if the line can be decoded.\<close>

definition echoed :: "host \<Rightarrow> string \<Rightarrow> string option" where
  "echoed h l = (if py_major h < 3 then Some (strip l)
                 else map_option (\<lambda>cs. concat (str_strip cs)) (decode_utf8 l))"

section \<open>Example hosts and worlds\<close>

text \<open>A tool that exits at once, prints nothing and leaves the file system as it was.\<close>

definition inert_tool :: "string \<Rightarrow> path \<Rightarrow> filesys \<Rightarrow> process option" where
  "inert_tool command d f =
     Some \<lparr>stdout_lines = [], stderr_lines = [], alive_polls = 0, returncode = 1, fs_after = f\<rparr>"

definition linux_host :: host where
  "linux_host = \<lparr>platform = ''linux'', py_major = 3, script_folder = [''repo'', ''script''],
                  spawn = inert_tool, denied_paths = [], rmtree_progress = (\<lambda>_ _. []),
                  msbuild_location = ''msbuild'', ndk_location = ''/ndk''\<rparr>"

definition mac_host :: host where
  "mac_host = linux_host\<lparr>platform := ''darwin''\<rparr>"

definition repo_fs :: filesys where
  "repo_fs = (\<lambda>p. if p \<in> set [[], [''repo''], [''repo'', ''script''], [''repo'', ''src'']]
                   then Some Dir else None)"

definition fresh_world :: world where
  "fresh_world = \<lparr>fs = repo_fs, cwd = [''repo'', ''script''], trace = [],
                   xcode_logging = True, verbose = False, overwrite = False,
                   librhino3dm_native_folder = ''/repo/src/librhino3dm_native''\<rparr>"

text \<open>
  A tool that writes one line to standard error and nothing to standard output. The
  first variant is still running when the script polls it; the second has already
  exited by then.
\<close>

definition complaining :: "filesys \<Rightarrow> process" where
  "complaining f = \<lparr>stdout_lines = [], stderr_lines = [''CMake Error: no source''], alive_polls = 1,
                     returncode = 1, fs_after = f\<rparr>"

definition failed_at_once :: "filesys \<Rightarrow> process" where
  "failed_at_once f = \<lparr>stdout_lines = [], stderr_lines = [''CMake Error: no source''], alive_polls = 0,
                        returncode = 1, fs_after = f\<rparr>"

definition cmake_complains :: "string \<Rightarrow> path \<Rightarrow> filesys \<Rightarrow> process option" where
  "cmake_complains command d f =
     (if take 6 command = ''cmake '' then Some (complaining f) else inert_tool command d f)"

definition cmake_fails_at_once :: "string \<Rightarrow> path \<Rightarrow> filesys \<Rightarrow> process option" where
  "cmake_fails_at_once command d f =
     (if take 6 command = ''cmake '' then Some (failed_at_once f) else inert_tool command d f)"

definition built_world :: world where
  "built_world = fresh_world\<lparr>fs := repo_fs([''repo'', ''src'', ''build''] \<mapsto> Dir)\<rparr>"

definition complaining_mac :: host where
  "complaining_mac = mac_host\<lparr>spawn := cmake_complains\<rparr>"

definition hasty_mac :: host where
  "hasty_mac = mac_host\<lparr>spawn := cmake_fails_at_once\<rparr>"

section \<open>Observations on a platform attempt\<close>

text \<open>
  The point of a platform attempt at which the overwrite check is applied: the output
  folder as \<^verbatim>\<open>check_or_create_path\<close> returned it, the artifact \<open>file\<close> in it that
  the attempt is about, and the world at that moment.
\<close>

definition gate_point :: "host \<Rightarrow> pathname \<Rightarrow> string \<Rightarrow> world \<Rightarrow> pathname \<times> pathname \<times> world" where
  "gate_point h dir file w =
     (case check_or_create_path h dir w of
        (Return target_path, w1) \<Rightarrow>
          (target_path, Abs (resolve (cwd w1) (os_path_join target_path file)), w1)
      | (_, w1) \<Rightarrow> (Rel [], Rel [], w1))"

definition exists_warning :: "host \<Rightarrow> world \<Rightarrow> pathname \<Rightarrow> event" where
  "exists_warning h w item =
     Print (warning_text (xcode_logging w)
              (''A configuration already appears in '' @ path_text h item @
               ''. Use --overwrite to replace.''))"

definition platform_dir :: "host \<Rightarrow> string \<Rightarrow> pathname" where
  "platform_dir h name = os_path_join (Abs (build_folder h)) name"

text \<open>
  A world in which every platform has been configured before, one in which the user
  asked to overwrite, and a Windows host.
\<close>

definition configured_fs :: filesys where
  "configured_fs = (\<lambda>p.
     if p \<in> set [[''repo'', ''src'', ''build''],
                 [''repo'', ''src'', ''build'', ''javascript''],
                 [''repo'', ''src'', ''build'', ''ios''],
                 [''repo'', ''src'', ''build'', ''macos''],
                 [''repo'', ''src'', ''build'', ''windows''],
                 [''repo'', ''src'', ''build'', ''android''],
                 [''repo'', ''src'', ''build'', ''android'', ''armeabi-v7a''],
                 [''repo'', ''src'', ''build'', ''ios'', ''librhino3dm_native.xcodeproj''],
                 [''repo'', ''src'', ''build'', ''macos'', ''librhino3dm_native.xcodeproj'']]
     then Some Dir
     else if p \<in> set [[''repo'', ''src'', ''build'', ''javascript'', ''Makefile''],
                      [''repo'', ''src'', ''build'', ''windows'', ''librhino3dm_native.vcxproj''],
                      [''repo'', ''src'', ''build'', ''android'', ''armeabi-v7a'', ''Makefile'']]
     then Some File
     else repo_fs p)"

definition configured_world :: world where
  "configured_world = fresh_world\<lparr>fs := configured_fs\<rparr>"

definition overwriting_world :: world where
  "overwriting_world = configured_world\<lparr>overwrite := True\<rparr>"

definition windows_host :: host where
  "windows_host = linux_host\<lparr>platform := ''win32''\<rparr>"

text \<open>A host on which neither the JavaScript Makefile nor the macOS project may be deleted.\<close>

definition locked_host :: host where
  "locked_host = linux_host\<lparr>denied_paths :=
     [[''repo'', ''src'', ''build'', ''javascript'', ''Makefile''],
      [''repo'', ''src'', ''build'', ''macos'', ''librhino3dm_native.xcodeproj'']]\<rparr>"

text \<open>A world with a stray \<^verbatim>\<open>Makefile\<close> in the working directory.\<close>

definition stray_world :: world where
  "stray_world = fresh_world\<lparr>fs := repo_fs([''repo'', ''script'', ''Makefile''] \<mapsto> File)\<rparr>"

text \<open>The files of the code-generation stage.\<close>

definition methodgen_exe :: "host \<Rightarrow> pathname" where
  "methodgen_exe h = Abs (src_folder h @ [''MethodGen.exe''])"

definition dotnet_folder :: "host \<Rightarrow> pathname" where
  "dotnet_folder h = Abs (src_folder h @ [''dotnet''])"

definition generated_source :: "host \<Rightarrow> path" where
  "generated_source h = src_folder h @ [''dotnet'', ''AutoNativeMethods.cs'']"

definition not_found_trace :: "world \<Rightarrow> event list" where
  "not_found_trace w =
     [Print (bold_text (xcode_logging w) '' Running MethodGen...''),
      Print (error_text (xcode_logging w) ''MethodGen.exe not found.'')]"

text \<open>
  A world in which the code-generation tool has been built and an earlier run has left
  its output behind, and a host whose tools write that output.
\<close>

definition tooled_world :: world where
  "tooled_world = fresh_world\<lparr>fs := repo_fs([''repo'', ''src'', ''build''] \<mapsto> Dir,
       [''repo'', ''src'', ''MethodGen.exe''] \<mapsto> File,
       [''repo'', ''src'', ''dotnet''] \<mapsto> Dir,
       [''repo'', ''src'', ''dotnet'', ''AutoNativeMethods.cs''] \<mapsto> File)\<rparr>"

definition generated :: "filesys \<Rightarrow> process" where
  "generated f = \<lparr>stdout_lines = [''generated''], stderr_lines = [], alive_polls = 2,
                   returncode = 0,
                   fs_after = f([''repo'', ''src'', ''dotnet'', ''AutoNativeMethods.cs''] \<mapsto> File)\<rparr>"

definition writing_tool :: "string \<Rightarrow> path \<Rightarrow> filesys \<Rightarrow> process option" where
  "writing_tool command d f = Some (generated f)"

definition generating_host :: host where
  "generating_host = linux_host\<lparr>spawn := writing_tool\<rparr>"

text \<open>
  A host on which no command can be launched, a host on which the generated source may
  not be deleted, and a world in which a directory sits where the generated source goes.
\<close>

definition toolless_host :: host where
  "toolless_host = linux_host\<lparr>spawn := (\<lambda>_ _ _. None)\<rparr>"

definition guarded_host :: host where
  "guarded_host = linux_host\<lparr>denied_paths :=
     [[''repo'', ''src'', ''dotnet'', ''AutoNativeMethods.cs'']]\<rparr>"

definition blocked_world :: world where
  "blocked_world = tooled_world\<lparr>fs :=
     (fs tooled_world)([''repo'', ''src'', ''dotnet'', ''AutoNativeMethods.cs''] \<mapsto> Dir)\<rparr>"

text \<open>The command line \<^verbatim>\<open>--platform all --xcodelog\<close>.\<close>

definition all_args :: args where
  "all_args = \<lparr>arg_platform = Some [''all''], arg_verbose = False, arg_overwrite = False,
                arg_xcodelog = True, argc = 4\<rparr>"

section \<open>Observations on verification\<close>

text \<open>The line \<^verbatim>\<open>setup_did_succeed\<close> prints about an artifact in a given world.\<close>

definition verdict :: "host \<Rightarrow> world \<Rightarrow> pathname \<Rightarrow> event" where
  "verdict h w item =
     Print (if path_exists w item
            then ok_text (xcode_logging w) (''successfully wrote: '' @ path_text h item)
            else error_text (xcode_logging w)
                   (''failed to configure and generate '' @ path_text h item))"

definition no_emcmake :: "world \<Rightarrow> event" where
  "no_emcmake w =
     Print (error_text (xcode_logging w)
              ''could not find emcmake command.  Run the bootstrap.py --check emscripten'')"

text \<open>
  A program verifies an artifact when every value it returns is the existence of the
  artifact in the final world, announced by the last line printed.
\<close>

definition verifies :: "host \<Rightarrow> pathname \<Rightarrow> pyval prog \<Rightarrow> bool" where
  "verifies h item k =
     (\<forall>w v w'. k w = (Return v, w') \<longrightarrow>
        v = PyBool (path_exists w' item) \<and> trace w' \<noteq> [] \<and> last (trace w') = verdict h w' item)"

text \<open>
  A generator that writes the named project file into the directory it is run in; every
  other tool is inert.
\<close>

definition generator_tool :: "string \<Rightarrow> string \<Rightarrow> path \<Rightarrow> filesys \<Rightarrow> process option" where
  "generator_tool name command d f =
     (if take 6 command = ''cmake '' \<or> take 8 command = ''emcmake ''
      then Some \<lparr>stdout_lines = [''-- Configuring done''], stderr_lines = [], alive_polls = 0,
                 returncode = 0, fs_after = f(d @ [name] \<mapsto> File)\<rparr>
      else inert_tool command d f)"

definition xcode_mac :: host where
  "xcode_mac = mac_host\<lparr>spawn := generator_tool ''librhino3dm_native.xcodeproj''\<rparr>"

definition make_linux :: host where
  "make_linux = linux_host\<lparr>spawn := generator_tool ''Makefile''\<rparr>"

section \<open>Observations on the Android loop\<close>

text \<open>
  How one round of the loop over the ABIs ends: the loop goes on to the next variant, is
  left by \<^verbatim>\<open>break\<close>, or the function returns a value. \<open>android_abi\<close> is the body of
  the loop for one variant.
\<close>

datatype control = Continue | Break | ReturnValue pyval

definition android_abi :: "host \<Rightarrow> string \<Rightarrow> pathname \<Rightarrow> string \<Rightarrow> control prog" where
  "android_abi h android_toolchain_path target_path app_abi =
     seq (check_or_create_path h (os_path_join target_path app_abi)) (\<lambda>abi_target_path.
     seq (os_path_abspath (os_path_join abi_target_path ''Makefile'')) (\<lambda>item_to_check.
     seq (overwrite_check h item_to_check) (\<lambda>go.
     if \<not> go then ret (ReturnValue (PyBool False))
     else
       seq (os_chdir abi_target_path) (\<lambda>_.
       seq (py_print []) (\<lambda>_.
       seq (\<lambda>w. py_print (if xcode_logging w
                            then ''Generating Makefile for Android ('' @ app_abi @ '')...''
                            else BOLD @ ''Generating Makefile Android ('' @ app_abi @ '')...'' @ ENDC) w)
           (\<lambda>_.
       seq (\<lambda>w. run_command h (android_command android_toolchain_path app_abi w) False w) (\<lambda>_.
       seq (time_sleep 2) (\<lambda>_.
       seq (setup_did_succeed h item_to_check) (\<lambda>b.
       if \<not> b then ret Break else ret Continue)))))))))"

definition android_toolchain :: "host \<Rightarrow> string" where
  "android_toolchain h =
     join_text h (join_text h (join_text h (bootstrap_check_ndk h) ''build'') ''cmake'')
               ''android.toolchain.cmake''"

section \<open>Observations on the command line\<close>






section \<open>Basic facts about the embedding\<close>

lemmas prog_defs = ret_def raise_def sys_exit_def seq_def emit_def py_print_def time_sleep_def
  print_warning_message_def print_error_message_def print_ok_message_def print_bold_def

lemmas example_defs = linux_host_def mac_host_def repo_fs_def fresh_world_def inert_tool_def
  complaining_def failed_at_once_def cmake_complains_def cmake_fails_at_once_def built_world_def
  complaining_mac_def hasty_mac_def all_args_def

lemmas os_defs = os_path_join_def resolve_def os_path_abspath_def is_windows_def os_sep_def
  path_text_def ends_with_def join_text_def node_at_def path_exists_def os_path_exists_def
  os_path_isfile_def os_path_isdir_def os_mkdir_def os_remove_def shutil_rmtree_def os_chdir_def
  popen_def denied_def under_def rmtree_blocked_def rmtree_partial_def

lemmas utf8_defs = decode_def decode_utf8.simps utf8_width_def utf8_tail_def byte_def
  in_range_def str_strip_def unicode_spaces_def

lemmas text_defs = warning_text_def error_text_def ok_text_def bold_text_def
  lower_def lower_char_def upper_def upper_char_def upper_letters_def lower_letters_def
  strip_def is_space_def flip_separators_def backslash_def

lemmas script_defs = valid_platform_args_def platform_full_names_def src_folder_def
  build_folder_def readline_def run_command_def print_platform_preamble_def
  check_or_create_path_def overwrite_check_def setup_did_succeed_def
  bootstrap_check_msbuild_def bootstrap_check_ndk_def appease_def build_methodgen_def
  methodgen_command_def run_methodgen_def full_name_lower_def macos_command_def setup_macos_def
  ios_command_def setup_ios_def js_command_def setup_js_def app_abis_def android_command_def
  setup_android_def windows_command_def setup_windows_def call_setup_def setup_target_def
  setup_handler_def delete_cache_file_def invalid_platform_text_def main_def

lemma spawned_in_append [simp]: "spawned_in (xs @ ys) = spawned_in xs @ spawned_in ys"
  by (induction xs rule: spawned_in.induct) simp_all


lemma seq_Raise: "m w = (Raise e, w') \<Longrightarrow> seq m f w = (Raise e, w')"
  by (simp add: seq_def)

lemma seq_Return: "m w = (Return x, w') \<Longrightarrow> seq m f w = f x w'"
  by (simp add: seq_def)

lemma seq_ret [simp]: "seq (ret x) f = f x"
  by (simp add: seq_def ret_def)

section \<open>Host preconditions\<close>

text \<open>
  Claim C8. Setting up macos or ios on a host that is not macOS, or windows on a host
  that is not Windows, prints an error message and returns \<^verbatim>\<open>False\<close>; nothing is
  raised, and the only change to the world is that one printed line, so no process is
  launched.
\<close>

theorem precondition_failure:
  "(platform h \<noteq> ''darwin'' \<longrightarrow>
       setup_macos h w = (Return (PyBool False), w\<lparr>trace := trace w @ [Print (error_text (xcode_logging w)
          ''Generating project file for macOS requires that you run this script on macOS'')]\<rparr>)
     \<and> setup_ios h w = (Return (PyBool False), w\<lparr>trace := trace w @ [Print (error_text (xcode_logging w)
          ''Generating project file for iOS requires that you run this script on macOS'')]\<rparr>))
   \<and> (platform h \<noteq> ''win32'' \<and> platform h \<noteq> ''win64'' \<longrightarrow>
       setup_windows h w = (Return (PyBool False), w\<lparr>trace := trace w @ [Print (error_text (xcode_logging w)
          ''Generating project file for Windows requires that you run this script on Windows'')]\<rparr>))
   \<and> (platform h \<noteq> ''darwin'' \<longrightarrow>
       spawned (snd (setup_macos h w)) = spawned w \<and> spawned (snd (setup_ios h w)) = spawned w)
   \<and> (platform h \<noteq> ''win32'' \<and> platform h \<noteq> ''win64'' \<longrightarrow>
       spawned (snd (setup_windows h w)) = spawned w)"
  by (simp add: setup_macos_def setup_ios_def setup_windows_def prog_defs spawned_def)

theorem precondition_failure_witness:
  "platform linux_host \<noteq> ''darwin'' \<and> platform linux_host \<noteq> ''win32'' \<and> platform linux_host \<noteq> ''win64''
   \<and> setup_macos linux_host fresh_world = (Return (PyBool False), fresh_world\<lparr>trace :=
        [Print '' error: Generating project file for macOS requires that you run this script on macOS'']\<rparr>)
   \<and> setup_ios linux_host fresh_world = (Return (PyBool False), fresh_world\<lparr>trace :=
        [Print '' error: Generating project file for iOS requires that you run this script on macOS'']\<rparr>)
   \<and> setup_windows linux_host fresh_world = (Return (PyBool False), fresh_world\<lparr>trace :=
        [Print '' error: Generating project file for Windows requires that you run this script on Windows'']\<rparr>)
   \<and> spawned (snd (setup_macos linux_host fresh_world)) = []
   \<and> spawned (snd (setup_ios linux_host fresh_world)) = []
   \<and> spawned (snd (setup_windows linux_host fresh_world)) = []"
  using precondition_failure [of linux_host fresh_world]
  by (simp add: example_defs error_text_def spawned_def)

section \<open>The command runner and fatal tool errors\<close>

lemma run_command_loop_exits:
  assumes "\<forall>l \<in> set ls. l \<noteq> [] \<and> echoed h l \<noteq> None"
    and "readline rest = []" and "readline err \<noteq> []" and "echoed h (readline err) = Some t"
    and "length ls < n"
  shows "run_command_loop h False (ls @ rest) err n w =
           (SysExit 1, w\<lparr>trace := trace w @ map (\<lambda>l. Print (the (echoed h l))) ls @
                                     [Print (error_text (xcode_logging w) t)]\<rparr>)"
  using assms
proof (induction ls arbitrary: n w)
  case Nil
  then obtain m where n: "n = Suc m"
    by (cases n) auto
  show ?case
    using Nil.prems(2-4) unfolding n
    by (auto simp: echoed_def decode_def prog_defs Let_def split: if_splits option.splits)
next
  case (Cons l ls)
  then obtain m where n: "n = Suc m" and m: "length ls < m"
    by (cases n) auto
  from Cons.prems(1) obtain s where l: "l \<noteq> []" "echoed h l = Some s"
    by auto
  let ?w1 = "w\<lparr>trace := trace w @ [Print s]\<rparr>"
  have step: "run_command_loop h False ((l # ls) @ rest) err (Suc m) w =
              run_command_loop h False (ls @ rest) err m ?w1"
    using l
    by (auto simp: echoed_def decode_def readline_def prog_defs Let_def
        split: if_splits option.splits)
  have "run_command_loop h False (ls @ rest) err m ?w1 =
          (SysExit 1, ?w1\<lparr>trace := trace ?w1 @ map (\<lambda>l. Print (the (echoed h l))) ls @
                                     [Print (error_text (xcode_logging ?w1) t)]\<rparr>)"
    using Cons.prems m by (intro Cons.IH) auto
  then show ?case
    unfolding n step using l by simp
qed

lemma run_command_exits:
  assumes "spawn h command (cwd w) (fs w) = Some pr"
    and "stdout_lines pr = ls @ rest"
    and "\<forall>l \<in> set ls. l \<noteq> [] \<and> echoed h l \<noteq> None"
    and "readline rest = []" and "readline (stderr_lines pr) \<noteq> []"
    and "echoed h (readline (stderr_lines pr)) = Some t"
    and "length ls < alive_polls pr"
  shows "run_command h command False w =
           (SysExit 1, w\<lparr>fs := fs_after pr,
                          trace := trace w @ Spawn command (cwd w) #
                                   map (\<lambda>l. Print (the (echoed h l))) ls @
                                   [Print (error_text (xcode_logging w) t)]\<rparr>)"
  using assms(1,2) run_command_loop_exits [OF assms(3-7)]
  by (simp add: run_command_def popen_def seq_def)

lemma run_command_already_exited:
  assumes "spawn h command (cwd w) (fs w) = Some pr" and "alive_polls pr = 0"
  shows "run_command h command suppress w =
           (Return (returncode pr),
            w\<lparr>fs := fs_after pr, trace := trace w @ [Spawn command (cwd w)]\<rparr>)"
  using assms by (simp add: run_command_def popen_def prog_defs)

text \<open>
  Claim C2. The claim holds of a tool that is still running when the loop polls it: its
  first line on standard error is printed as an error and the script exits with status 1.
\<close>

lemma complaining_tool_is_fatal:
  "run_command complaining_mac (macos_command fresh_world) False fresh_world =
     (SysExit 1, fresh_world\<lparr>trace :=
        [Spawn (macos_command fresh_world) [''repo'', ''script''],
         Print '' error: CMake Error: no source'']\<rparr>)"
proof -
  have "run_command complaining_mac (macos_command fresh_world) False fresh_world =
      (SysExit 1, fresh_world\<lparr>fs := fs_after (complaining repo_fs),
         trace := trace fresh_world @ Spawn (macos_command fresh_world) (cwd fresh_world) #
                  map (\<lambda>l. Print (the (echoed complaining_mac l))) [] @
                  [Print (error_text (xcode_logging fresh_world) ''CMake Error: no source'')]\<rparr>)"
    by (rule run_command_exits [where rest = "[]"])
      (simp_all add: example_defs macos_command_def readline_def echoed_def utf8_defs Let_def)
  then show ?thesis
    by (simp add: example_defs text_defs)
qed

lemma complaining_main_exits:
  "fst (main complaining_mac all_args fresh_world) = SysExit 1"
  by code_simp

text \<open>
  The code does not do what the claim says for a tool that has already exited when it
  is first polled. The loop leaves at the poll, before it looks at standard error: the
  line written there is never read, nothing is reported, \<^verbatim>\<open>run_command\<close> returns
  the exit status, which its callers ignore, and a run over all platforms goes on to
  the end.
\<close>

theorem stderr_line_missed:
  "spawn hasty_mac (macos_command fresh_world) (cwd fresh_world) (fs fresh_world)
     = Some (failed_at_once repo_fs)
   \<and> readline (stdout_lines (failed_at_once repo_fs)) = []
   \<and> readline (stderr_lines (failed_at_once repo_fs)) = ''CMake Error: no source''
   \<and> run_command hasty_mac (macos_command fresh_world) False fresh_world =
        (Return 1, fresh_world\<lparr>trace := [Spawn (macos_command fresh_world) [''repo'', ''script'']]\<rparr>)
   \<and> fst (main hasty_mac all_args fresh_world) = Return PyNone"
proof -
  have a: "spawn hasty_mac (macos_command fresh_world) (cwd fresh_world) (fs fresh_world)
             = Some (failed_at_once repo_fs)"
    by (simp add: example_defs macos_command_def)
  have b: "alive_polls (failed_at_once repo_fs) = 0"
    by (simp add: failed_at_once_def)
  have c: "fst (main hasty_mac all_args fresh_world) = Return PyNone"
    by code_simp
  show ?thesis
    using a c run_command_already_exited [OF a b, of False]
    by (simp add: example_defs readline_def)
qed

section \<open>The overwrite check\<close>

lemma path_exists_empty [simp]: "\<not> path_exists w (Rel [])"
  by (simp add: path_exists_def node_at_def)

lemma path_exists_trace [simp]: "path_exists (w\<lparr>trace := t\<rparr>) p = path_exists w p"
  by (simp add: path_exists_def node_at_def)

lemma overwrite_check_absent:
  "\<not> path_exists w p \<Longrightarrow> overwrite_check h p w = (Return True, w)"
  by (simp add: overwrite_check_def os_path_exists_def seq_def ret_def)

lemma overwrite_check_skip:
  "path_exists w p \<Longrightarrow> \<not> overwrite w \<Longrightarrow>
   overwrite_check h p w = (Return False, w\<lparr>trace := trace w @ [exists_warning h w p]\<rparr>)"
  by (simp add: overwrite_check_def os_path_exists_def exists_warning_def prog_defs)






lemma full_name_lower_values:
  "full_name_lower ''js'' = ret ''javascript''"
  "full_name_lower ''ios'' = ret ''ios''"
  "full_name_lower ''macos'' = ret ''macos''"
  "full_name_lower ''android'' = ret ''android''"
  "full_name_lower ''windows'' = ret ''windows''"
  by (simp_all add: full_name_lower_def platform_full_names_def text_defs)

lemma check_or_create_path_returns:
  "\<exists>tp w1. check_or_create_path h p w = (Return tp, w1)"
  by (simp add: check_or_create_path_def split: prod.splits outcome.splits)

lemma gate_pointD:
  assumes "gate_point h dir file w = (tp, item, w1)"
  shows "check_or_create_path h dir w = (Return tp, w1)"
    and "item = Abs (resolve (cwd w1) (os_path_join tp file))"
proof -
  obtain tp' w1' where c: "check_or_create_path h dir w = (Return tp', w1')"
    using check_or_create_path_returns by blast
  with assms have "tp' = tp" "w1' = w1" "item = Abs (resolve (cwd w1) (os_path_join tp file))"
    by (auto simp: gate_point_def)
  with c show "check_or_create_path h dir w = (Return tp, w1)"
    and "item = Abs (resolve (cwd w1) (os_path_join tp file))"
    by simp_all
qed


lemma gate_skips:
  assumes "gate_point h dir file w = (tp, item, w1)"
    and "path_exists w1 item" and "\<not> overwrite w1"
  shows "seq (check_or_create_path h dir) (\<lambda>target_path.
         seq (os_path_abspath (os_path_join target_path file)) (\<lambda>item_to_check.
         seq (overwrite_check h item_to_check) (\<lambda>go.
         if \<not> go then ret v else rest target_path item_to_check))) w
         = (Return v, w1\<lparr>trace := trace w1 @ [exists_warning h w1 item]\<rparr>)"
proof -
  note d = gate_pointD [OF assms(1)]
  have "overwrite_check h item w1 = (Return False, w1\<lparr>trace := trace w1 @ [exists_warning h w1 item]\<rparr>)"
    using assms(2,3) by (rule overwrite_check_skip)
  then show ?thesis
    using d by (simp add: seq_def os_path_abspath_def ret_def)
qed

lemma setup_js_skip:
  assumes "gate_point h (platform_dir h ''javascript'') ''Makefile'' w = (tp, item, w1)"
    and "path_exists w1 item" and "\<not> overwrite w1"
  shows "setup_js h w = (Return (PyBool False), w1\<lparr>trace := trace w1 @ [exists_warning h w1 item]\<rparr>)"
  unfolding setup_js_def full_name_lower_values seq_ret platform_dir_def [symmetric]
  by (rule gate_skips [OF assms])






lemmas example_world_defs = configured_fs_def configured_world_def overwriting_world_def
  windows_host_def locked_host_def




section \<open>Creating the output folder\<close>

lemma check_or_create_path_exists:
  "path_exists w p \<Longrightarrow> check_or_create_path h p w = (Return p, w)"
  by (simp add: check_or_create_path_def os_path_exists_def seq_def ret_def)

lemma check_or_create_path_created:
  "\<not> path_exists w p \<Longrightarrow> os_mkdir h p w = (Return (), w1) \<Longrightarrow>
   check_or_create_path h p w = (Return p, w1)"
  by (simp add: check_or_create_path_def os_path_exists_def seq_def ret_def)

lemma check_or_create_path_failed:
  "\<not> path_exists w p \<Longrightarrow> os_mkdir h p w = (r, w1) \<Longrightarrow> r \<noteq> Return () \<Longrightarrow>
   check_or_create_path h p w = (Return (Rel []), w1)"
  by (cases r) (simp_all add: check_or_create_path_def os_path_exists_def seq_def ret_def)

lemma check_or_create_path_value:
  "\<exists>w'. check_or_create_path h p w = (Return p, w') \<or>
        check_or_create_path h p w = (Return (Rel []), w')"
proof (cases "path_exists w p")
  case True
  then show ?thesis
    using check_or_create_path_exists by blast
next
  case False
  obtain r w1 where m: "os_mkdir h p w = (r, w1)"
    by (cases "os_mkdir h p w")
  show ?thesis
  proof (cases "r = Return ()")
    case True
    with False m show ?thesis
      using check_or_create_path_created by blast
  next
    case r: False
    with False m show ?thesis
      using check_or_create_path_failed by blast
  qed
qed

lemma gate_point_empty:
  assumes "check_or_create_path h dir w = (Return (Rel []), w1)"
  shows "gate_point h dir file w = (Rel [], Abs (cwd w1 @ [file]), w1)"
  using assms by (simp add: gate_point_def os_path_join_def resolve_def)

lemma setup_js_after_failed_create:
  assumes "check_or_create_path h (platform_dir h ''javascript'') w = (Return (Rel []), w1)"
    and "overwrite_check h (Abs (cwd w1 @ [''Makefile''])) w1 = (Return True, w2)"
  shows "setup_js h w = (Raise FileNotFoundError, w2)"
  unfolding setup_js_def full_name_lower_values seq_ret platform_dir_def [symmetric]
  using assms
  by (simp add: seq_def os_path_abspath_def os_path_join_def resolve_def os_chdir_def node_at_def)

text \<open>
  Claim C10. \<^verbatim>\<open>check_or_create_path\<close> always returns: the path it was given when the
  path exists or \<^verbatim>\<open>os.mkdir\<close> succeeds, the empty string when \<^verbatim>\<open>os.mkdir\<close> does
  anything else. \<^verbatim>\<open>setup_js\<close> does not look at which it got: with the empty string
  its artifact is \<^verbatim>\<open>Makefile\<close> in the working directory, the overwrite check is
  applied to that file, and when the check lets the attempt through the next statement
  is \<^verbatim>\<open>os.chdir('')\<close>, which raises.
\<close>

theorem check_or_create_path_never_raises:
  "(\<exists>w'. check_or_create_path h p w = (Return p, w') \<or>
         check_or_create_path h p w = (Return (Rel []), w'))
   \<and> (path_exists w p \<longrightarrow> check_or_create_path h p w = (Return p, w))
   \<and> (\<not> path_exists w p \<and> os_mkdir h p w = (Return (), w1) \<longrightarrow>
        check_or_create_path h p w = (Return p, w1))
   \<and> (\<not> path_exists w p \<and> os_mkdir h p w = (r, w1) \<and> r \<noteq> Return () \<longrightarrow>
        check_or_create_path h p w = (Return (Rel []), w1))
   \<and> (check_or_create_path h (platform_dir h ''javascript'') w = (Return (Rel []), w1) \<longrightarrow>
        gate_point h (platform_dir h ''javascript'') ''Makefile'' w =
          (Rel [], Abs (cwd w1 @ [''Makefile'']), w1))
   \<and> (check_or_create_path h (platform_dir h ''javascript'') w = (Return (Rel []), w1) \<and>
      path_exists w1 (Abs (cwd w1 @ [''Makefile''])) \<and> \<not> overwrite w1 \<longrightarrow>
        setup_js h w =
          (Return (PyBool False),
           w1\<lparr>trace := trace w1 @ [exists_warning h w1 (Abs (cwd w1 @ [''Makefile'']))]\<rparr>))
   \<and> (check_or_create_path h (platform_dir h ''javascript'') w = (Return (Rel []), w1) \<and>
      overwrite_check h (Abs (cwd w1 @ [''Makefile''])) w1 = (Return True, w2) \<longrightarrow>
        setup_js h w = (Raise FileNotFoundError, w2))"
proof -
  have c1: "\<exists>w'. check_or_create_path h p w = (Return p, w') \<or>
         check_or_create_path h p w = (Return (Rel []), w')"
    by (rule check_or_create_path_value)
  have c2: "path_exists w p \<longrightarrow> check_or_create_path h p w = (Return p, w)"
    using check_or_create_path_exists by blast
  have c3: "\<not> path_exists w p \<and> os_mkdir h p w = (Return (), w1) \<longrightarrow>
        check_or_create_path h p w = (Return p, w1)"
    using check_or_create_path_created by blast
  have c4: "\<not> path_exists w p \<and> os_mkdir h p w = (r, w1) \<and> r \<noteq> Return () \<longrightarrow>
        check_or_create_path h p w = (Return (Rel []), w1)"
    using check_or_create_path_failed by blast
  have c5: "check_or_create_path h (platform_dir h ''javascript'') w = (Return (Rel []), w1) \<longrightarrow>
        gate_point h (platform_dir h ''javascript'') ''Makefile'' w =
          (Rel [], Abs (cwd w1 @ [''Makefile'']), w1)"
    using gate_point_empty by blast
  have c6: "check_or_create_path h (platform_dir h ''javascript'') w = (Return (Rel []), w1) \<and>
      path_exists w1 (Abs (cwd w1 @ [''Makefile''])) \<and> \<not> overwrite w1 \<longrightarrow>
        setup_js h w =
          (Return (PyBool False),
           w1\<lparr>trace := trace w1 @ [exists_warning h w1 (Abs (cwd w1 @ [''Makefile'']))]\<rparr>)"
    using gate_point_empty setup_js_skip by blast
  have c7: "check_or_create_path h (platform_dir h ''javascript'') w = (Return (Rel []), w1) \<and>
      overwrite_check h (Abs (cwd w1 @ [''Makefile''])) w1 = (Return True, w2) \<longrightarrow>
        setup_js h w = (Raise FileNotFoundError, w2)"
    using setup_js_after_failed_create by blast
  show ?thesis
    using c1 c2 c3 c4 c5 c6 c7 by (intro conjI)
qed
theorem check_or_create_path_never_raises_witness:
  "(\<exists>w'. check_or_create_path linux_host (platform_dir linux_host ''javascript'') fresh_world = (Return (platform_dir linux_host ''javascript''), w') \<or>
        check_or_create_path linux_host (platform_dir linux_host ''javascript'') fresh_world = (Return (Rel []), w'))
   \<and> path_exists configured_world (platform_dir linux_host ''javascript'')
   \<and> check_or_create_path linux_host (platform_dir linux_host ''javascript'') configured_world = (Return (platform_dir linux_host ''javascript''), configured_world)
   \<and> \<not> path_exists built_world (platform_dir linux_host ''javascript'')
   \<and> fst (os_mkdir linux_host (platform_dir linux_host ''javascript'') built_world) = Return ()
   \<and> check_or_create_path linux_host (platform_dir linux_host ''javascript'') built_world =
      (Return (platform_dir linux_host ''javascript''), snd (os_mkdir linux_host (platform_dir linux_host ''javascript'') built_world))
   \<and> path_exists (snd (check_or_create_path linux_host (platform_dir linux_host ''javascript'') built_world)) (platform_dir linux_host ''javascript'')
   \<and> \<not> path_exists fresh_world (platform_dir linux_host ''javascript'')
   \<and> os_mkdir linux_host (platform_dir linux_host ''javascript'') fresh_world = (Raise FileNotFoundError, fresh_world)
   \<and> check_or_create_path linux_host (platform_dir linux_host ''javascript'') fresh_world = (Return (Rel []), fresh_world)
   \<and> gate_point linux_host (platform_dir linux_host ''javascript'') ''Makefile'' fresh_world =
      (Rel [], Abs [''repo'', ''script'', ''Makefile''], fresh_world)
   \<and> check_or_create_path linux_host (platform_dir linux_host ''javascript'') stray_world = (Return (Rel []), stray_world)
   \<and> path_exists stray_world (Abs [''repo'', ''script'', ''Makefile''])
   \<and> \<not> overwrite stray_world
   \<and> setup_js linux_host stray_world =
      (Return (PyBool False), stray_world\<lparr>trace := [Print
       '' warning: A configuration already appears in /repo/script/Makefile. Use --overwrite to replace.'']\<rparr>)
   \<and> overwrite_check linux_host (Abs [''repo'', ''script'', ''Makefile'']) fresh_world = (Return True, fresh_world)
   \<and> setup_js linux_host fresh_world = (Raise FileNotFoundError, fresh_world)"
proof -
  note ev = os_defs build_folder_def src_folder_def example_defs example_world_defs
    stray_world_def platform_dir_def exists_warning_def text_defs
  have a1: "\<exists>w'. check_or_create_path linux_host (platform_dir linux_host ''javascript'') fresh_world = (Return (platform_dir linux_host ''javascript''), w') \<or>
        check_or_create_path linux_host (platform_dir linux_host ''javascript'') fresh_world = (Return (Rel []), w')"
    using check_or_create_path_never_raises [where h = linux_host and p = "platform_dir linux_host ''javascript''" and w = fresh_world, THEN conjunct1]
    by simp
  have h2: "path_exists configured_world (platform_dir linux_host ''javascript'')"
    by (simp add: ev)
  have a2: "check_or_create_path linux_host (platform_dir linux_host ''javascript'') configured_world = (Return (platform_dir linux_host ''javascript''), configured_world)"
    using check_or_create_path_never_raises [where h = linux_host and p = "platform_dir linux_host ''javascript''" and w = configured_world, THEN conjunct2, THEN conjunct1, rule_format] h2
    by simp
  have h3: "\<not> path_exists built_world (platform_dir linux_host ''javascript'')"
    by (simp add: ev)
  have h3': "fst (os_mkdir linux_host (platform_dir linux_host ''javascript'') built_world) = Return ()"
    by (simp add: ev Let_def)
  have a3: "check_or_create_path linux_host (platform_dir linux_host ''javascript'') built_world =
      (Return (platform_dir linux_host ''javascript''), snd (os_mkdir linux_host (platform_dir linux_host ''javascript'') built_world))"
    using check_or_create_path_never_raises [where h = linux_host and p = "platform_dir linux_host ''javascript''" and w = built_world
        and ?w1.0 = "snd (os_mkdir linux_host (platform_dir linux_host ''javascript'') built_world)", THEN conjunct2, THEN conjunct2, THEN conjunct1, rule_format] h3 h3'
    by (metis prod.collapse)
  have a3': "path_exists (snd (check_or_create_path linux_host (platform_dir linux_host ''javascript'') built_world)) (platform_dir linux_host ''javascript'')"
    unfolding a3 by (simp add: ev Let_def)
  have h4: "\<not> path_exists fresh_world (platform_dir linux_host ''javascript'')"
    by (simp add: ev)
  have h4': "os_mkdir linux_host (platform_dir linux_host ''javascript'') fresh_world = (Raise FileNotFoundError, fresh_world)"
    by (simp add: ev Let_def)
  have a4: "check_or_create_path linux_host (platform_dir linux_host ''javascript'') fresh_world = (Return (Rel []), fresh_world)"
    using check_or_create_path_never_raises [where h = linux_host and p = "platform_dir linux_host ''javascript''" and w = fresh_world
        and ?w1.0 = fresh_world and r = "Raise FileNotFoundError", THEN conjunct2, THEN conjunct2, THEN conjunct2, THEN conjunct1, rule_format] h4 h4'
    by simp
  have a5: "gate_point linux_host (platform_dir linux_host ''javascript'') ''Makefile'' fresh_world =
      (Rel [], Abs [''repo'', ''script'', ''Makefile''], fresh_world)"
    using check_or_create_path_never_raises [where h = linux_host and w = fresh_world and ?w1.0 = fresh_world, THEN conjunct2, THEN conjunct2, THEN conjunct2, THEN conjunct2, THEN conjunct1, rule_format] a4
    by (simp add: ev)
  have h6: "check_or_create_path linux_host (platform_dir linux_host ''javascript'') stray_world = (Return (Rel []), stray_world)"
    by (simp add: check_or_create_path_def seq_def ret_def ev Let_def)
  have h6': "path_exists stray_world (Abs [''repo'', ''script'', ''Makefile''])"
    by (simp add: ev)
  have h6'': "\<not> overwrite stray_world"
    by (simp add: ev)
  have a6: "setup_js linux_host stray_world =
      (Return (PyBool False), stray_world\<lparr>trace := [Print
       '' warning: A configuration already appears in /repo/script/Makefile. Use --overwrite to replace.'']\<rparr>)"
    using check_or_create_path_never_raises [where h = linux_host and w = stray_world and ?w1.0 = stray_world, THEN conjunct2, THEN conjunct2, THEN conjunct2, THEN conjunct2, THEN conjunct2, THEN conjunct1, rule_format] h6 h6' h6''
    by (simp add: ev)
  have h7: "overwrite_check linux_host (Abs [''repo'', ''script'', ''Makefile'']) fresh_world = (Return True, fresh_world)"
    by (rule overwrite_check_absent) (simp add: ev)
  have a7: "setup_js linux_host fresh_world = (Raise FileNotFoundError, fresh_world)"
    using check_or_create_path_never_raises [where h = linux_host and w = fresh_world and ?w1.0 = fresh_world and ?w2.0 = fresh_world, THEN conjunct2, THEN conjunct2, THEN conjunct2, THEN conjunct2, THEN conjunct2, THEN conjunct2, rule_format] a4 h7
    by (simp add: ev)
  show ?thesis
    by (intro conjI; fact)
qed

section \<open>Running a command\<close>

lemma trace_grows_refl: "\<exists>es. w = w\<lparr>trace := trace w @ es\<rparr> \<and> spawned_in es = []"
proof -
  have "w = w\<lparr>trace := trace w @ []\<rparr> \<and> spawned_in [] = []"
    by simp
  then show ?thesis by blast
qed

lemma trace_grows_print:
  "\<exists>es. w\<lparr>trace := trace w @ [Print l]\<rparr> = w\<lparr>trace := trace w @ es\<rparr> \<and> spawned_in es = []"
proof -
  have "w\<lparr>trace := trace w @ [Print l]\<rparr> = w\<lparr>trace := trace w @ [Print l]\<rparr> \<and> spawned_in [Print l] = []"
    by simp
  then show ?thesis by blast
qed

lemma run_command_loop_frame:
  "run_command_loop h s out err n w = (r, w') \<Longrightarrow>
   (\<exists>es. w' = w\<lparr>trace := trace w @ es\<rparr> \<and> spawned_in es = []) \<and>
   (r = Return () \<or> r = SysExit 1 \<or> r = Raise UnicodeDecodeError)"
proof (induction n arbitrary: out err w)
  case 0
  then have "w' = w" and "r = Return ()"
    by (simp_all add: ret_def)
  with trace_grows_refl [of w] show ?case by simp
next
  case (Suc n)
  have step: "\<exists>es. w' = w\<lparr>trace := trace w @ es\<rparr> \<and> spawned_in es = []"
    if "\<exists>es. w' = (w\<lparr>trace := trace w @ [Print l]\<rparr>)\<lparr>trace := trace (w\<lparr>trace := trace w @ [Print l]\<rparr>) @ es\<rparr>
             \<and> spawned_in es = []" for l
  proof -
    from that obtain es where "w' = w\<lparr>trace := trace w @ Print l # es\<rparr>" "spawned_in es = []"
      by auto
    then have "w' = w\<lparr>trace := trace w @ (Print l # es)\<rparr> \<and> spawned_in (Print l # es) = []"
      by simp
    then show ?thesis by blast
  qed
  show ?case
  proof (cases "readline out \<noteq> []")
    case True
    show ?thesis
    proof (cases "py_major h < 3")
      case py2: True
      with True Suc.prems have "run_command_loop h s (tl out) err n
          (w\<lparr>trace := trace w @ [Print (strip (readline out))]\<rparr>) = (r, w')"
        by (simp add: prog_defs Let_def)
      from Suc.IH [OF this] step show ?thesis
        by blast
    next
      case py3: False
      show ?thesis
      proof (cases "decode_utf8 (readline out)")
        case None
        with True py3 Suc.prems have "w' = w" and "r = Raise UnicodeDecodeError"
          by (simp_all add: prog_defs decode_def Let_def)
        with trace_grows_refl [of w] show ?thesis by simp
      next
        case (Some cs)
        with True py3 Suc.prems have "run_command_loop h s (tl out) err n
            (w\<lparr>trace := trace w @ [Print (concat (str_strip cs))]\<rparr>) = (r, w')"
          by (simp add: prog_defs decode_def Let_def)
        from Suc.IH [OF this] step show ?thesis
          by blast
      qed
    qed
  next
    case False
    show ?thesis
    proof (cases "\<not> s \<and> readline err \<noteq> []")
      case True
      with False Suc.prems have "(w' = w \<and> r = Raise UnicodeDecodeError) \<or>
          ((\<exists>l. w' = w\<lparr>trace := trace w @ [Print l]\<rparr>) \<and> r = SysExit 1)"
        by (cases "decode_utf8 (readline err)")
          (auto simp: prog_defs decode_def Let_def split: if_splits)
      with trace_grows_refl [of w] trace_grows_print [of w] show ?thesis
        by auto
    next
      case no_exit: False
      with False Suc.prems have "run_command_loop h s (tl out) err n w = (r, w') \<or>
          run_command_loop h s (tl out) (tl err) n w = (r, w')"
        by (auto simp: prog_defs Let_def split: if_splits)
      then show ?thesis
        using Suc.IH by blast
    qed
  qed
qed

lemma run_command_launch_fails:
  "spawn h c (cwd w) (fs w) = None \<Longrightarrow> run_command h c s w = (Raise FileNotFoundError, w)"
  by (simp add: run_command_def popen_def seq_def)

lemma run_command_runs:
  assumes "spawn h c (cwd w) (fs w) = Some pr"
  shows "\<exists>r es. run_command h c s w =
             (r, w\<lparr>fs := fs_after pr, trace := trace w @ Spawn c (cwd w) # es\<rparr>)
           \<and> spawned_in es = []
           \<and> (r = Return (returncode pr) \<or> r = SysExit 1 \<or> r = Raise UnicodeDecodeError)"
proof -
  let ?w1 = "w\<lparr>fs := fs_after pr, trace := trace w @ [Spawn c (cwd w)]\<rparr>"
  obtain r w2 where l: "run_command_loop h s (stdout_lines pr) (stderr_lines pr) (alive_polls pr) ?w1
                        = (r, w2)"
    by (cases "run_command_loop h s (stdout_lines pr) (stderr_lines pr) (alive_polls pr) ?w1")
  from run_command_loop_frame [OF l] obtain es where
    w2: "w2 = w\<lparr>fs := fs_after pr, trace := trace w @ Spawn c (cwd w) # es\<rparr>"
    and quiet: "spawned_in es = []"
    and r: "r = Return () \<or> r = SysExit 1 \<or> r = Raise UnicodeDecodeError"
    by auto
  have "run_command h c s w = ((case r of Return _ \<Rightarrow> Return (returncode pr) | SysExit k \<Rightarrow> SysExit k
                                 | Raise e \<Rightarrow> Raise e), w2)"
    using assms l by (cases r) (simp_all add: run_command_def popen_def seq_def ret_def)
  with w2 quiet r show ?thesis
    by auto
qed

lemma run_command_Return:
  assumes "run_command h c s w = (Return rc, w')"
  shows "\<exists>pr es. spawn h c (cwd w) (fs w) = Some pr \<and> fs w' = fs_after pr \<and> cwd w' = cwd w \<and>
           trace w' = trace w @ Spawn c (cwd w) # es \<and>
           xcode_logging w' = xcode_logging w"
proof (cases "spawn h c (cwd w) (fs w)")
  case None
  with assms show ?thesis
    by (simp add: run_command_launch_fails)
next
  case (Some pr)
  from run_command_runs [OF Some, of s] assms obtain es where
    "w' = w\<lparr>fs := fs_after pr, trace := trace w @ Spawn c (cwd w) # es\<rparr>"
    by auto
  with Some show ?thesis
    by simp
qed

section \<open>The code-generation stage\<close>

lemma build_methodgen_False:
  assumes "build_methodgen h w = (Return False, w1)"
  shows "\<not> path_exists w1 (methodgen_exe h)"
proof -
  let ?cmd = "(if is_windows h then flip_separators (bootstrap_check_msbuild h) else ''msbuild'') @
      '' '' @ appease h (path_text h (Abs (src_folder h @ [''methodgen'', ''methodgen.csproj'']))) @
      '' /p:Configuration=Release''"
  let ?w0 = "w\<lparr>trace := trace w @ [Print (bold_text (xcode_logging w) '' Building MethodGen...'')]\<rparr>"
  obtain r w2 where rc: "run_command h ?cmd False ?w0 = (r, w2)"
    by (cases "run_command h ?cmd False ?w0")
  show ?thesis
    using assms rc
    by (cases r)
      (auto simp: build_methodgen_def methodgen_exe_def prog_defs Let_def os_path_abspath_def
        os_path_join_def resolve_def os_path_exists_def path_exists_def node_at_def
        split: if_splits)
qed

lemma run_methodgen_not_found:
  assumes "\<not> path_exists w (methodgen_exe h)"
  shows "run_methodgen h w = (Return (PyBool False), w\<lparr>trace := trace w @ not_found_trace w\<rparr>)"
  using assms
  by (simp add: run_methodgen_def methodgen_exe_def not_found_trace_def prog_defs
      os_path_abspath_def os_path_join_def resolve_def os_path_exists_def path_exists_def
      node_at_def)

lemma seq_print_bold:
  "seq (print_bold s) f w = f () (w\<lparr>trace := trace w @ [Print (bold_text (xcode_logging w) s)]\<rparr>)"
  by (simp add: prog_defs)

lemma os_path_join_Abs: "os_path_join (Abs q) c = Abs (q @ [c])"
  by (simp add: os_path_join_def)

lemma seq_abspath_Abs: "seq (os_path_abspath (Abs q)) f = f (Abs q)"
  by (rule ext) (simp add: seq_def os_path_abspath_def resolve_def)

lemma seq_exists: "seq (os_path_exists p) f w = f (path_exists w p) w"
  by (simp add: seq_def os_path_exists_def)

text \<open>The stage from the stale-file test on, and its verdict after the generator has run.\<close>

lemma run_methodgen_found:
  assumes found: "path_exists w (methodgen_exe h)"
  shows "run_methodgen h w =
      seq (seq (os_path_exists (Abs (generated_source h))) (\<lambda>stale.
              if stale then os_remove h (Abs (generated_source h)) else ret ())) (\<lambda>_.
      seq (\<lambda>w. run_command h (methodgen_command h w (methodgen_exe h) (dotnet_folder h)) False w)
           (\<lambda>_.
       seq (os_path_exists (Abs (generated_source h))) (\<lambda>ex.
       if ex then
         seq (print_ok_message (''successfully generated: '' @ path_text h (Abs (generated_source h))))
             (\<lambda>_. ret PyNone)
       else
         seq (print_error_message (''failed to generate '' @ path_text h (Abs (generated_source h)) @
                                   '' for macOS build'')) (\<lambda>_. ret (PyBool False)))))
      (w\<lparr>trace := trace w @ [Print (bold_text (xcode_logging w) '' Running MethodGen...'')]\<rparr>)"
  using found
  unfolding run_methodgen_def methodgen_exe_def dotnet_folder_def generated_source_def
  by (simp only: seq_print_bold os_path_join_Abs seq_abspath_Abs seq_exists path_exists_trace
      append.simps append_assoc not_True_eq_False if_False)

lemma stale_test:
  "seq (os_path_exists (Abs q)) (\<lambda>stale. if stale then os_remove h (Abs q) else ret ()) w =
     (case fs w q of
        None \<Rightarrow> (Return (), w)
      | Some Dir \<Rightarrow> (Raise IsADirectoryError, w)
      | Some File \<Rightarrow> if denied h q then (Raise PermissionError, w)
                     else (Return (), w\<lparr>fs := (fs w)(q := None), trace := trace w @ [Remove q]\<rparr>))"
  by (simp add: seq_def ret_def os_path_exists_def os_remove_def path_exists_def node_at_def
      resolve_def Let_def split: option.splits node.splits)

lemma methodgen_command_world:
  "librhino3dm_native_folder w2 = librhino3dm_native_folder w \<Longrightarrow>
   methodgen_command h w2 e d = methodgen_command h w e d"
  by (simp add: methodgen_command_def)

lemma run_methodgen_refused:
  assumes found: "path_exists w (methodgen_exe h)"
  shows "fs w (generated_source h) = Some File \<and> denied h (generated_source h) \<Longrightarrow>
           run_methodgen h w = (Raise PermissionError,
              w\<lparr>trace := trace w @ [Print (bold_text (xcode_logging w) '' Running MethodGen...'')]\<rparr>)"
    and "fs w (generated_source h) = Some Dir \<Longrightarrow>
           run_methodgen h w = (Raise IsADirectoryError,
              w\<lparr>trace := trace w @ [Print (bold_text (xcode_logging w) '' Running MethodGen...'')]\<rparr>)"
  unfolding run_methodgen_found [OF found]
  by (subst seq_def, subst stale_test, simp)+

lemma run_methodgen_cleared:
  assumes found: "path_exists w (methodgen_exe h)"
    and clean: "fs w (generated_source h) = None \<or>
                fs w (generated_source h) = Some File \<and> \<not> denied h (generated_source h)"
  shows "run_methodgen h w =
      seq (run_command h (methodgen_command h w (methodgen_exe h) (dotnet_folder h)) False)
           (\<lambda>_.
       seq (os_path_exists (Abs (generated_source h))) (\<lambda>ex.
       if ex then
         seq (print_ok_message (''successfully generated: '' @ path_text h (Abs (generated_source h))))
             (\<lambda>_. ret PyNone)
       else
         seq (print_error_message (''failed to generate '' @ path_text h (Abs (generated_source h)) @
                                   '' for macOS build'')) (\<lambda>_. ret (PyBool False))))
      (w\<lparr>fs := (fs w)(generated_source h := None),
         trace := trace w @ Print (bold_text (xcode_logging w) '' Running MethodGen...'') #
                  (if fs w (generated_source h) = None then [] else [Remove (generated_source h)])\<rparr>)"
proof -
  let ?w0 = "w\<lparr>trace := trace w @ [Print (bold_text (xcode_logging w) '' Running MethodGen...'')]\<rparr>"
  let ?w1 = "w\<lparr>fs := (fs w)(generated_source h := None),
         trace := trace w @ Print (bold_text (xcode_logging w) '' Running MethodGen...'') #
                  (if fs w (generated_source h) = None then [] else [Remove (generated_source h)])\<rparr>"
  have idem: "fs w (generated_source h) = None \<Longrightarrow> (fs w)(generated_source h := None) = fs w"
    by (rule ext) simp
  have "seq (os_path_exists (Abs (generated_source h))) (\<lambda>stale.
              if stale then os_remove h (Abs (generated_source h)) else ret ()) ?w0 = (Return (), ?w1)"
    using clean by (subst stale_test) (auto simp: idem)
  then show ?thesis
    unfolding run_methodgen_found [OF found]
    by (subst seq_def) (simp add: methodgen_command_def seq_def)
qed

lemma run_methodgen_launch_fails:
  assumes found: "path_exists w (methodgen_exe h)"
    and clean: "fs w (generated_source h) = None \<or>
                fs w (generated_source h) = Some File \<and> \<not> denied h (generated_source h)"
    and launch: "spawn h (methodgen_command h w (methodgen_exe h) (dotnet_folder h)) (cwd w)
                   ((fs w)(generated_source h := None)) = None"
  shows "run_methodgen h w = (Raise FileNotFoundError,
      w\<lparr>fs := (fs w)(generated_source h := None),
         trace := trace w @ Print (bold_text (xcode_logging w) '' Running MethodGen...'') #
                  (if fs w (generated_source h) = None then [] else [Remove (generated_source h)])\<rparr>)"
  unfolding run_methodgen_cleared [OF found clean]
  by (rule seq_Raise, rule run_command_launch_fails) (simp add: launch)

lemma run_methodgen_runs:
  assumes found: "path_exists w (methodgen_exe h)"
    and clean: "fs w (generated_source h) = None \<or>
                fs w (generated_source h) = Some File \<and> \<not> denied h (generated_source h)"
    and launch: "spawn h (methodgen_command h w (methodgen_exe h) (dotnet_folder h)) (cwd w)
                   ((fs w)(generated_source h := None)) = Some pr"
  shows "fs (snd (run_methodgen h w)) = fs_after pr
     \<and> (\<exists>es. trace (snd (run_methodgen h w)) =
            trace w @ Print (bold_text (xcode_logging w) '' Running MethodGen...'') #
            (if fs w (generated_source h) = None then [] else [Remove (generated_source h)]) @
            Spawn (methodgen_command h w (methodgen_exe h) (dotnet_folder h)) (cwd w) # es)
     \<and> (fst (run_methodgen h w) =
            Return (if fs_after pr (generated_source h) \<noteq> None then PyNone else PyBool False)
        \<or> fst (run_methodgen h w) = SysExit 1
        \<or> fst (run_methodgen h w) = Raise UnicodeDecodeError)"
proof -
  let ?cmd = "methodgen_command h w (methodgen_exe h) (dotnet_folder h)"
  let ?w1 = "w\<lparr>fs := (fs w)(generated_source h := None),
         trace := trace w @ Print (bold_text (xcode_logging w) '' Running MethodGen...'') #
                  (if fs w (generated_source h) = None then [] else [Remove (generated_source h)])\<rparr>"
  have "spawn h ?cmd (cwd ?w1) (fs ?w1) = Some pr"
    using launch by simp
  from run_command_runs [OF this, of False] obtain r es where
    rc: "run_command h ?cmd False ?w1 =
           (r, ?w1\<lparr>fs := fs_after pr, trace := trace ?w1 @ Spawn ?cmd (cwd ?w1) # es\<rparr>)"
    and r: "r = Return (returncode pr) \<or> r = SysExit 1 \<or> r = Raise UnicodeDecodeError"
    by blast
  from r show ?thesis
    unfolding run_methodgen_cleared [OF found clean]
    by (elim disjE)
      (simp_all add: seq_def rc os_path_exists_def path_exists_def node_at_def resolve_def
        prog_defs)
qed

lemma run_methodgen_value:
  assumes "run_methodgen h w = (Return v, w')"
  shows "v = PyNone \<or> v = PyBool False"
proof (cases "path_exists w (methodgen_exe h)")
  case False
  from run_methodgen_not_found [OF False] assms show ?thesis
    by simp
next
  case found: True
  show ?thesis
  proof (cases "fs w (generated_source h) = None \<or>
                fs w (generated_source h) = Some File \<and> \<not> denied h (generated_source h)")
    case False
    then have "fs w (generated_source h) = Some File \<and> denied h (generated_source h) \<or>
               fs w (generated_source h) = Some Dir"
      by (cases "fs w (generated_source h)") (auto intro: node.exhaust)
    with run_methodgen_refused [OF found] assms show ?thesis
      by auto
  next
    case clean: True
    show ?thesis
    proof (cases "spawn h (methodgen_command h w (methodgen_exe h) (dotnet_folder h)) (cwd w)
                   ((fs w)(generated_source h := None))")
      case None
      from run_methodgen_launch_fails [OF found clean None] assms show ?thesis
        by simp
    next
      case (Some pr)
      from run_methodgen_runs [OF found clean Some] assms show ?thesis
        by (auto split: if_splits)
    qed
  qed
qed

lemma run_methodgen_success:
  assumes "run_methodgen h w = (Return PyNone, w')"
  shows "\<exists>pr. spawn h (methodgen_command h w (methodgen_exe h) (dotnet_folder h)) (cwd w)
               ((fs w)(generated_source h := None)) = Some pr
            \<and> fs_after pr (generated_source h) \<noteq> None \<and> fs w' = fs_after pr"
proof (cases "path_exists w (methodgen_exe h)")
  case False
  from run_methodgen_not_found [OF False] assms show ?thesis
    by simp
next
  case found: True
  show ?thesis
  proof (cases "fs w (generated_source h) = None \<or>
                fs w (generated_source h) = Some File \<and> \<not> denied h (generated_source h)")
    case False
    then have "fs w (generated_source h) = Some File \<and> denied h (generated_source h) \<or>
               fs w (generated_source h) = Some Dir"
      by (cases "fs w (generated_source h)") (auto intro: node.exhaust)
    with run_methodgen_refused [OF found] assms show ?thesis
      by auto
  next
    case clean: True
    show ?thesis
    proof (cases "spawn h (methodgen_command h w (methodgen_exe h) (dotnet_folder h)) (cwd w)
                   ((fs w)(generated_source h := None))")
      case None
      from run_methodgen_launch_fails [OF found clean None] assms show ?thesis
        by simp
    next
      case (Some pr)
      from run_methodgen_runs [OF found clean Some] assms have
        "fs_after pr (generated_source h) \<noteq> None \<and> fs w' = fs_after pr"
        by (auto split: if_splits)
      with Some show ?thesis
        by simp
    qed
  qed
qed

text \<open>
  Claim C7. When \<^verbatim>\<open>build_methodgen\<close> reports failure, \<^verbatim>\<open>MethodGen.exe\<close> is not on
  disk, and the \<^verbatim>\<open>run_methodgen\<close> that follows finds that out for itself: it prints
  that the executable was not found and returns \<^verbatim>\<open>False\<close>. In any world,
  \<^verbatim>\<open>run_methodgen\<close> launches a process only if the executable exists.
\<close>

theorem codegen_needs_executable:
  "(build_methodgen h w = (Return False, w1) \<longrightarrow>
      run_methodgen h w1 = (Return (PyBool False), w1\<lparr>trace := trace w1 @ not_found_trace w1\<rparr>))
   \<and> (\<not> path_exists w (methodgen_exe h) \<longrightarrow>
      run_methodgen h w = (Return (PyBool False), w\<lparr>trace := trace w @ not_found_trace w\<rparr>))
   \<and> (spawned (snd (run_methodgen h w)) \<noteq> spawned w \<longrightarrow> path_exists w (methodgen_exe h))"
proof -
  have c1: "build_methodgen h w = (Return False, w1) \<longrightarrow>
      run_methodgen h w1 = (Return (PyBool False), w1\<lparr>trace := trace w1 @ not_found_trace w1\<rparr>)"
    using build_methodgen_False run_methodgen_not_found by blast
  have c2: "\<not> path_exists w (methodgen_exe h) \<longrightarrow>
      run_methodgen h w = (Return (PyBool False), w\<lparr>trace := trace w @ not_found_trace w\<rparr>)"
    using run_methodgen_not_found by blast
  have c3: "spawned (snd (run_methodgen h w)) \<noteq> spawned w \<longrightarrow> path_exists w (methodgen_exe h)"
    by (cases "path_exists w (methodgen_exe h)")
      (simp_all add: run_methodgen_not_found spawned_def not_found_trace_def)
  show ?thesis
    using c1 c2 c3 by (intro conjI)
qed

theorem codegen_needs_executable_witness:
  "fst (build_methodgen linux_host built_world) = Return False
   \<and> run_methodgen linux_host (snd (build_methodgen linux_host built_world)) =
      (Return (PyBool False),
       (snd (build_methodgen linux_host built_world))\<lparr>trace := trace (snd (build_methodgen linux_host built_world)) @ not_found_trace (snd (build_methodgen linux_host built_world))\<rparr>)
   \<and> spawned (snd (run_methodgen linux_host (snd (build_methodgen linux_host built_world)))) = spawned (snd (build_methodgen linux_host built_world))
   \<and> \<not> path_exists built_world (methodgen_exe linux_host)
   \<and> run_methodgen linux_host built_world =
      (Return (PyBool False), built_world\<lparr>trace :=
         [Print '' Running MethodGen...'', Print '' error: MethodGen.exe not found.'']\<rparr>)
   \<and> spawned (snd (run_methodgen linux_host tooled_world)) \<noteq> spawned tooled_world
   \<and> path_exists tooled_world (methodgen_exe linux_host)"
proof -
  note ev = os_defs build_folder_def src_folder_def example_defs example_world_defs
    methodgen_exe_def dotnet_folder_def generated_source_def tooled_world_def writing_tool_def
    generated_def generating_host_def not_found_trace_def text_defs spawned_def
  have h1: "fst (build_methodgen linux_host built_world) = Return False"
    by code_simp
  have a1: "run_methodgen linux_host (snd (build_methodgen linux_host built_world)) =
      (Return (PyBool False),
       (snd (build_methodgen linux_host built_world))\<lparr>trace := trace (snd (build_methodgen linux_host built_world)) @ not_found_trace (snd (build_methodgen linux_host built_world))\<rparr>)"
    using codegen_needs_executable [where h = linux_host and w = built_world and ?w1.0 = "snd (build_methodgen linux_host built_world)", THEN conjunct1, rule_format] h1
    by (metis prod.collapse)
  have a1': "spawned (snd (run_methodgen linux_host (snd (build_methodgen linux_host built_world)))) = spawned (snd (build_methodgen linux_host built_world))"
    unfolding a1 by (simp add: spawned_def not_found_trace_def)
  have h2: "\<not> path_exists built_world (methodgen_exe linux_host)"
    by (simp add: ev)
  have a2: "run_methodgen linux_host built_world =
      (Return (PyBool False), built_world\<lparr>trace :=
         [Print '' Running MethodGen...'', Print '' error: MethodGen.exe not found.'']\<rparr>)"
    using codegen_needs_executable [where h = linux_host and w = built_world, THEN conjunct2, THEN conjunct1, rule_format] h2
    by (simp add: ev)
  have h3: "spawned (snd (run_methodgen linux_host tooled_world)) \<noteq> spawned tooled_world"
    by code_simp
  have a3: "path_exists tooled_world (methodgen_exe linux_host)"
    using codegen_needs_executable [where h = linux_host and w = tooled_world, THEN conjunct2, THEN conjunct2, rule_format] h3
    by simp
  show ?thesis
    by (intro conjI; fact)
qed

text \<open>
  Claim C9. When \<^verbatim>\<open>MethodGen.exe\<close> is there, \<^verbatim>\<open>run_methodgen\<close> first removes
  \<^verbatim>\<open>AutoNativeMethods.cs\<close> and only then launches the generator, which therefore starts
  on a file system without that file. Whatever way the run ends (a return, the exit on a
  line of standard error, an undecodable line), the file system it leaves is the one the
  generator left, the removal precedes the launch in the trace, and a return reports
  success exactly when the generator left the file there. If the generator cannot be
  launched, the file has been removed all the same. If the file cannot be removed, the
  run ends with the exception of \<^verbatim>\<open>os.remove\<close> and nothing is launched. So a
  success report always comes from a generator that wrote the file itself.
\<close>

theorem stale_source_removed:
  "(path_exists w (methodgen_exe h) \<and>
      (fs w (generated_source h) = None \<or>
       fs w (generated_source h) = Some File \<and> \<not> denied h (generated_source h)) \<and>
      spawn h (methodgen_command h w (methodgen_exe h) (dotnet_folder h)) (cwd w)
        ((fs w)(generated_source h := None)) = Some pr \<longrightarrow>
      fs (snd (run_methodgen h w)) = fs_after pr
      \<and> (\<exists>es. trace (snd (run_methodgen h w)) =
            trace w @ Print (bold_text (xcode_logging w) '' Running MethodGen...'') #
            (if fs w (generated_source h) = None then [] else [Remove (generated_source h)]) @
            Spawn (methodgen_command h w (methodgen_exe h) (dotnet_folder h)) (cwd w) # es)
      \<and> (fst (run_methodgen h w) =
            Return (if fs_after pr (generated_source h) \<noteq> None then PyNone else PyBool False)
         \<or> fst (run_methodgen h w) = SysExit 1
         \<or> fst (run_methodgen h w) = Raise UnicodeDecodeError))
   \<and> (path_exists w (methodgen_exe h) \<and>
      (fs w (generated_source h) = None \<or>
       fs w (generated_source h) = Some File \<and> \<not> denied h (generated_source h)) \<and>
      spawn h (methodgen_command h w (methodgen_exe h) (dotnet_folder h)) (cwd w)
        ((fs w)(generated_source h := None)) = None \<longrightarrow>
      run_methodgen h w = (Raise FileNotFoundError,
        w\<lparr>fs := (fs w)(generated_source h := None),
           trace := trace w @ Print (bold_text (xcode_logging w) '' Running MethodGen...'') #
            (if fs w (generated_source h) = None then [] else [Remove (generated_source h)])\<rparr>))
   \<and> (path_exists w (methodgen_exe h) \<and> fs w (generated_source h) = Some File \<and> denied h (generated_source h) \<longrightarrow>
      run_methodgen h w = (Raise PermissionError, w\<lparr>trace := trace w @ [Print (bold_text (xcode_logging w) '' Running MethodGen...'')]\<rparr>))
   \<and> (path_exists w (methodgen_exe h) \<and> fs w (generated_source h) = Some Dir \<longrightarrow>
      run_methodgen h w = (Raise IsADirectoryError, w\<lparr>trace := trace w @ [Print (bold_text (xcode_logging w) '' Running MethodGen...'')]\<rparr>))
   \<and> (run_methodgen h w = (Return PyNone, w') \<longrightarrow>
      (\<exists>pr. spawn h (methodgen_command h w (methodgen_exe h) (dotnet_folder h)) (cwd w)
        ((fs w)(generated_source h := None)) = Some pr
            \<and> fs_after pr (generated_source h) \<noteq> None \<and> fs w' = fs_after pr))
   \<and> (run_methodgen h w = (Return v, w') \<longrightarrow> v = PyNone \<or> v = PyBool False)"
proof -
  have c1: "path_exists w (methodgen_exe h) \<and>
      (fs w (generated_source h) = None \<or>
       fs w (generated_source h) = Some File \<and> \<not> denied h (generated_source h)) \<and>
      spawn h (methodgen_command h w (methodgen_exe h) (dotnet_folder h)) (cwd w)
        ((fs w)(generated_source h := None)) = Some pr \<longrightarrow>
      fs (snd (run_methodgen h w)) = fs_after pr
      \<and> (\<exists>es. trace (snd (run_methodgen h w)) =
            trace w @ Print (bold_text (xcode_logging w) '' Running MethodGen...'') #
            (if fs w (generated_source h) = None then [] else [Remove (generated_source h)]) @
            Spawn (methodgen_command h w (methodgen_exe h) (dotnet_folder h)) (cwd w) # es)
      \<and> (fst (run_methodgen h w) =
            Return (if fs_after pr (generated_source h) \<noteq> None then PyNone else PyBool False)
         \<or> fst (run_methodgen h w) = SysExit 1
         \<or> fst (run_methodgen h w) = Raise UnicodeDecodeError)"
    using run_methodgen_runs [of w h pr] by blast
  have c2: "path_exists w (methodgen_exe h) \<and>
      (fs w (generated_source h) = None \<or>
       fs w (generated_source h) = Some File \<and> \<not> denied h (generated_source h)) \<and>
      spawn h (methodgen_command h w (methodgen_exe h) (dotnet_folder h)) (cwd w)
        ((fs w)(generated_source h := None)) = None \<longrightarrow>
      run_methodgen h w = (Raise FileNotFoundError,
        w\<lparr>fs := (fs w)(generated_source h := None),
           trace := trace w @ Print (bold_text (xcode_logging w) '' Running MethodGen...'') #
            (if fs w (generated_source h) = None then [] else [Remove (generated_source h)])\<rparr>)"
    using run_methodgen_launch_fails [of w h] by blast
  have c3: "path_exists w (methodgen_exe h) \<and> fs w (generated_source h) = Some File \<and> denied h (generated_source h) \<longrightarrow>
      run_methodgen h w = (Raise PermissionError, w\<lparr>trace := trace w @ [Print (bold_text (xcode_logging w) '' Running MethodGen...'')]\<rparr>)"
    using run_methodgen_refused(1) [of w h] by blast
  have c4: "path_exists w (methodgen_exe h) \<and> fs w (generated_source h) = Some Dir \<longrightarrow>
      run_methodgen h w = (Raise IsADirectoryError, w\<lparr>trace := trace w @ [Print (bold_text (xcode_logging w) '' Running MethodGen...'')]\<rparr>)"
    using run_methodgen_refused(2) [of w h] by blast
  have c5: "run_methodgen h w = (Return PyNone, w') \<longrightarrow>
      (\<exists>pr. spawn h (methodgen_command h w (methodgen_exe h) (dotnet_folder h)) (cwd w)
        ((fs w)(generated_source h := None)) = Some pr
            \<and> fs_after pr (generated_source h) \<noteq> None \<and> fs w' = fs_after pr)"
    using run_methodgen_success [of h w w'] by blast
  have c6: "run_methodgen h w = (Return v, w') \<longrightarrow> v = PyNone \<or> v = PyBool False"
    using run_methodgen_value [of h w v w'] by blast
  show ?thesis
    by (intro conjI; fact)
qed

theorem stale_source_removed_witness:
  "path_exists tooled_world (methodgen_exe generating_host)
   \<and> fs tooled_world (generated_source generating_host) = Some File
   \<and> \<not> denied generating_host (generated_source generating_host)
   \<and> spawn generating_host (methodgen_command generating_host tooled_world (methodgen_exe generating_host) (dotnet_folder generating_host)) (cwd tooled_world)
        ((fs tooled_world)(generated_source generating_host := None)) =
        Some (generated ((fs tooled_world)(generated_source generating_host := None)))
   \<and> fs (snd (run_methodgen generating_host tooled_world)) = fs_after (generated ((fs tooled_world)(generated_source generating_host := None)))
   \<and> (\<exists>es. trace (snd (run_methodgen generating_host tooled_world)) =
            trace tooled_world @ Print (bold_text (xcode_logging tooled_world) '' Running MethodGen...'') #
            (if fs tooled_world (generated_source generating_host) = None then [] else [Remove (generated_source generating_host)]) @
            Spawn (methodgen_command generating_host tooled_world (methodgen_exe generating_host) (dotnet_folder generating_host)) (cwd tooled_world) # es)
   \<and> (fst (run_methodgen generating_host tooled_world) =
            Return (if fs_after (generated ((fs tooled_world)(generated_source generating_host := None))) (generated_source generating_host) \<noteq> None then PyNone else PyBool False)
         \<or> fst (run_methodgen generating_host tooled_world) = SysExit 1
         \<or> fst (run_methodgen generating_host tooled_world) = Raise UnicodeDecodeError)
   \<and> path_exists tooled_world (methodgen_exe toolless_host)
   \<and> fs tooled_world (generated_source toolless_host) = Some File
   \<and> \<not> denied toolless_host (generated_source toolless_host)
   \<and> spawn toolless_host (methodgen_command toolless_host tooled_world (methodgen_exe toolless_host) (dotnet_folder toolless_host)) (cwd tooled_world)
        ((fs tooled_world)(generated_source toolless_host := None)) = None
   \<and> run_methodgen toolless_host tooled_world = (Raise FileNotFoundError,
        tooled_world\<lparr>fs := (fs tooled_world)(generated_source toolless_host := None),
           trace := trace tooled_world @ Print (bold_text (xcode_logging tooled_world) '' Running MethodGen...'') #
            (if fs tooled_world (generated_source toolless_host) = None then [] else [Remove (generated_source toolless_host)])\<rparr>)
   \<and> path_exists tooled_world (methodgen_exe guarded_host)
   \<and> fs tooled_world (generated_source guarded_host) = Some File
   \<and> denied guarded_host (generated_source guarded_host)
   \<and> run_methodgen guarded_host tooled_world = (Raise PermissionError, tooled_world\<lparr>trace := trace tooled_world @ [Print (bold_text (xcode_logging tooled_world) '' Running MethodGen...'')]\<rparr>)
   \<and> path_exists blocked_world (methodgen_exe linux_host)
   \<and> fs blocked_world (generated_source linux_host) = Some Dir
   \<and> run_methodgen linux_host blocked_world = (Raise IsADirectoryError, blocked_world\<lparr>trace := trace blocked_world @ [Print (bold_text (xcode_logging blocked_world) '' Running MethodGen...'')]\<rparr>)
   \<and> fst (run_methodgen generating_host tooled_world) = Return PyNone
   \<and> (\<exists>pr. spawn generating_host (methodgen_command generating_host tooled_world (methodgen_exe generating_host) (dotnet_folder generating_host)) (cwd tooled_world)
        ((fs tooled_world)(generated_source generating_host := None)) = Some pr
            \<and> fs_after pr (generated_source generating_host) \<noteq> None \<and> fs (snd (run_methodgen generating_host tooled_world)) = fs_after pr)
   \<and> (case fst (run_methodgen linux_host tooled_world) of Return _ \<Rightarrow> True | _ \<Rightarrow> False)
   \<and> (fst (run_methodgen linux_host tooled_world) = Return PyNone \<or> fst (run_methodgen linux_host tooled_world) = Return (PyBool False))"
proof -
  note ev = os_defs build_folder_def src_folder_def example_defs example_world_defs
    methodgen_exe_def dotnet_folder_def generated_source_def tooled_world_def writing_tool_def
    generated_def generating_host_def toolless_host_def guarded_host_def blocked_world_def
    methodgen_command_def appease_def text_defs
  have h1: "path_exists tooled_world (methodgen_exe generating_host)"
    by (simp add: ev)
  have h1a: "fs tooled_world (generated_source generating_host) = Some File"
    by (simp add: ev)
  have h1a': "\<not> denied generating_host (generated_source generating_host)"
    by (simp add: ev)
  have h1b: "spawn generating_host (methodgen_command generating_host tooled_world (methodgen_exe generating_host) (dotnet_folder generating_host)) (cwd tooled_world)
        ((fs tooled_world)(generated_source generating_host := None)) =
        Some (generated ((fs tooled_world)(generated_source generating_host := None)))"
    by (simp add: generating_host_def linux_host_def writing_tool_def)
  have hida1: "fs (snd (run_methodgen generating_host tooled_world)) = fs_after (generated ((fs tooled_world)(generated_source generating_host := None)))
      \<and> (\<exists>es. trace (snd (run_methodgen generating_host tooled_world)) =
            trace tooled_world @ Print (bold_text (xcode_logging tooled_world) '' Running MethodGen...'') #
            (if fs tooled_world (generated_source generating_host) = None then [] else [Remove (generated_source generating_host)]) @
            Spawn (methodgen_command generating_host tooled_world (methodgen_exe generating_host) (dotnet_folder generating_host)) (cwd tooled_world) # es)
      \<and> (fst (run_methodgen generating_host tooled_world) =
            Return (if fs_after (generated ((fs tooled_world)(generated_source generating_host := None))) (generated_source generating_host) \<noteq> None then PyNone else PyBool False)
         \<or> fst (run_methodgen generating_host tooled_world) = SysExit 1
         \<or> fst (run_methodgen generating_host tooled_world) = Raise UnicodeDecodeError)"
    using stale_source_removed [where h = generating_host and w = tooled_world and pr = "generated ((fs tooled_world)(generated_source generating_host := None))", THEN conjunct1, rule_format] h1 h1a h1a' h1b
    by blast
  have a1x: "fs (snd (run_methodgen generating_host tooled_world)) = fs_after (generated ((fs tooled_world)(generated_source generating_host := None)))"
    by (rule hida1 [THEN conjunct1])
  have a1y: "\<exists>es. trace (snd (run_methodgen generating_host tooled_world)) =
            trace tooled_world @ Print (bold_text (xcode_logging tooled_world) '' Running MethodGen...'') #
            (if fs tooled_world (generated_source generating_host) = None then [] else [Remove (generated_source generating_host)]) @
            Spawn (methodgen_command generating_host tooled_world (methodgen_exe generating_host) (dotnet_folder generating_host)) (cwd tooled_world) # es"
    by (rule hida1 [THEN conjunct2, THEN conjunct1])
  have a1z: "fst (run_methodgen generating_host tooled_world) =
            Return (if fs_after (generated ((fs tooled_world)(generated_source generating_host := None))) (generated_source generating_host) \<noteq> None then PyNone else PyBool False)
         \<or> fst (run_methodgen generating_host tooled_world) = SysExit 1
         \<or> fst (run_methodgen generating_host tooled_world) = Raise UnicodeDecodeError"
    by (rule hida1 [THEN conjunct2, THEN conjunct2])
  have h2: "path_exists tooled_world (methodgen_exe toolless_host)"
    by (simp add: ev)
  have h2a: "fs tooled_world (generated_source toolless_host) = Some File"
    by (simp add: ev)
  have h2a': "\<not> denied toolless_host (generated_source toolless_host)"
    by (simp add: ev)
  have h2b: "spawn toolless_host (methodgen_command toolless_host tooled_world (methodgen_exe toolless_host) (dotnet_folder toolless_host)) (cwd tooled_world)
        ((fs tooled_world)(generated_source toolless_host := None)) = None"
    by (simp add: toolless_host_def)
  have a2: "run_methodgen toolless_host tooled_world = (Raise FileNotFoundError,
        tooled_world\<lparr>fs := (fs tooled_world)(generated_source toolless_host := None),
           trace := trace tooled_world @ Print (bold_text (xcode_logging tooled_world) '' Running MethodGen...'') #
            (if fs tooled_world (generated_source toolless_host) = None then [] else [Remove (generated_source toolless_host)])\<rparr>)"
    using stale_source_removed [where h = toolless_host and w = tooled_world, THEN conjunct2, THEN conjunct1, rule_format] h2 h2a h2a' h2b
    by blast
  have h3: "path_exists tooled_world (methodgen_exe guarded_host)"
    by (simp add: ev)
  have h3a: "fs tooled_world (generated_source guarded_host) = Some File"
    by (simp add: ev)
  have h3b: "denied guarded_host (generated_source guarded_host)"
    by (simp add: ev)
  have a3: "run_methodgen guarded_host tooled_world = (Raise PermissionError, tooled_world\<lparr>trace := trace tooled_world @ [Print (bold_text (xcode_logging tooled_world) '' Running MethodGen...'')]\<rparr>)"
    using stale_source_removed [where h = guarded_host and w = tooled_world, THEN conjunct2, THEN conjunct2, THEN conjunct1, rule_format] h3 h3a h3b
    by blast
  have h4: "path_exists blocked_world (methodgen_exe linux_host)"
    by (simp add: ev)
  have h4a: "fs blocked_world (generated_source linux_host) = Some Dir"
    by (simp add: ev)
  have a4: "run_methodgen linux_host blocked_world = (Raise IsADirectoryError, blocked_world\<lparr>trace := trace blocked_world @ [Print (bold_text (xcode_logging blocked_world) '' Running MethodGen...'')]\<rparr>)"
    using stale_source_removed [where h = linux_host and w = blocked_world, THEN conjunct2, THEN conjunct2, THEN conjunct2, THEN conjunct1, rule_format] h4 h4a
    by blast
  have h5: "fst (run_methodgen generating_host tooled_world) = Return PyNone"
    by code_simp
  have a5: "\<exists>pr. spawn generating_host (methodgen_command generating_host tooled_world (methodgen_exe generating_host) (dotnet_folder generating_host)) (cwd tooled_world)
        ((fs tooled_world)(generated_source generating_host := None)) = Some pr
            \<and> fs_after pr (generated_source generating_host) \<noteq> None \<and> fs (snd (run_methodgen generating_host tooled_world)) = fs_after pr"
    using stale_source_removed [where h = generating_host and w = tooled_world and w' = "snd (run_methodgen generating_host tooled_world)", THEN conjunct2, THEN conjunct2, THEN conjunct2, THEN conjunct2, THEN conjunct1, rule_format] h5
    by (metis prod.collapse)
  have h6: "(case fst (run_methodgen linux_host tooled_world) of Return _ \<Rightarrow> True | _ \<Rightarrow> False)"
    by code_simp
  have a6: "fst (run_methodgen linux_host tooled_world) = Return PyNone \<or> fst (run_methodgen linux_host tooled_world) = Return (PyBool False)"
    proof -
    from h6 obtain v where v: "fst (run_methodgen linux_host tooled_world) = Return v"
      by (cases "fst (run_methodgen linux_host tooled_world)") simp_all
    then have "run_methodgen linux_host tooled_world = (Return v, snd (run_methodgen linux_host tooled_world))"
      by (metis prod.collapse)
    from stale_source_removed [where h = linux_host and w = tooled_world and v = v and w' = "snd (run_methodgen linux_host tooled_world)", THEN conjunct2, THEN conjunct2, THEN conjunct2, THEN conjunct2, THEN conjunct2, rule_format, OF this]
    show ?thesis
      unfolding v by simp
  qed
  show ?thesis
    by (intro conjI; fact)
qed

section \<open>The command line\<close>

lemma seq_assoc: "seq (seq m f) g = seq m (\<lambda>x. seq (f x) g)"
  by (rule ext) (simp add: seq_def split: prod.splits outcome.splits)










section \<open>Dispatch to all platforms\<close>

lemma setup_handler_all:
  "setup_handler h ''all'' =
     seq (seq (os_path_exists (Abs (build_folder h))) (\<lambda>ex.
            if \<not> ex then os_mkdir h (Abs (build_folder h)) else ret ())) (\<lambda>_.
     seq (print_platform_preamble ''JavaScript'') (\<lambda>_. seq (setup_js h) (\<lambda>_.
     seq (print_platform_preamble ''iOS'') (\<lambda>_. seq (setup_ios h) (\<lambda>_.
     seq (print_platform_preamble ''macOS'') (\<lambda>_. seq (setup_macos h) (\<lambda>_.
     seq (print_platform_preamble ''Android'') (\<lambda>_. seq (setup_android h) (\<lambda>_.
     seq (print_platform_preamble ''Windows'') (\<lambda>_. seq (setup_windows h) (\<lambda>_.
     ret PyNone)))))))))))"
  by (simp add: setup_handler_def valid_platform_args_def setup_target_def call_setup_def
      platform_full_names_def seq_assoc)

lemma setup_handler_value:
  assumes "setup_handler h target w = (Return v, w')"
  shows "v = PyNone"
  using assms
  by (auto simp: setup_handler_def seq_def ret_def split: prod.splits outcome.splits if_splits)

text \<open>
  Claim C5, amended. Dispatching \<^verbatim>\<open>all\<close> makes sure the build folder is there and then
  runs, for js, ios, macos, android and windows in this order, the platform's preamble
  and its setup, each once. What a setup returns is dropped, so a setup that reports
  failure by its return value does not stop the ones after it; a setup that ends by
  \<^verbatim>\<open>sys.exit\<close> or an exception ends the dispatch. The dispatcher returns \<^verbatim>\<open>None\<close>
  whatever the target: no outcome of any platform is handed back.
\<close>

theorem all_platforms_in_order:
  "setup_handler h ''all'' =
     seq (seq (os_path_exists (Abs (build_folder h))) (\<lambda>ex.
            if \<not> ex then os_mkdir h (Abs (build_folder h)) else ret ())) (\<lambda>_.
     seq (print_platform_preamble ''JavaScript'') (\<lambda>_. seq (setup_js h) (\<lambda>_.
     seq (print_platform_preamble ''iOS'') (\<lambda>_. seq (setup_ios h) (\<lambda>_.
     seq (print_platform_preamble ''macOS'') (\<lambda>_. seq (setup_macos h) (\<lambda>_.
     seq (print_platform_preamble ''Android'') (\<lambda>_. seq (setup_android h) (\<lambda>_.
     seq (print_platform_preamble ''Windows'') (\<lambda>_. seq (setup_windows h) (\<lambda>_.
     ret PyNone)))))))))))
   \<and> (setup_handler h target w = (Return v, w') \<longrightarrow> v = PyNone)"
proof -
  have c2: "setup_handler h target w = (Return v, w') \<longrightarrow> v = PyNone"
    using setup_handler_value by blast
  show ?thesis
    by (intro conjI) (rule setup_handler_all, rule c2)
qed

theorem all_platforms_in_order_witness:
  "(case fst (setup_handler linux_host ''ios'' fresh_world) of Return _ \<Rightarrow> True | _ \<Rightarrow> False)
   \<and> fst (setup_handler linux_host ''ios'' fresh_world) = Return PyNone"
proof -
  have h1: "case fst (setup_handler linux_host ''ios'' fresh_world) of Return _ \<Rightarrow> True | _ \<Rightarrow> False"
    by code_simp
  have a1: "fst (setup_handler linux_host ''ios'' fresh_world) = Return PyNone"
  proof -
    from h1 obtain v where v: "fst (setup_handler linux_host ''ios'' fresh_world) = Return v"
      by (cases "fst (setup_handler linux_host ''ios'' fresh_world)") simp_all
    then have "setup_handler linux_host ''ios'' fresh_world =
                 (Return v, snd (setup_handler linux_host ''ios'' fresh_world))"
      by (metis prod.collapse)
    from all_platforms_in_order [where h = linux_host and target = "''ios''" and w = fresh_world
        and v = v and w' = "snd (setup_handler linux_host ''ios'' fresh_world)",
        THEN conjunct2, rule_format, OF this]
    show ?thesis
      unfolding v by simp
  qed
  show ?thesis
    by (intro conjI; fact)
qed

theorem all_platforms_in_order_counterexample:
  "fst (setup_handler linux_host ''all'' fresh_world) = Return PyNone
   \<and> fst (setup_handler complaining_mac ''all'' fresh_world) = SysExit 1
   \<and> spawned (snd (setup_handler complaining_mac ''all'' fresh_world)) =
        [(js_command complaining_mac, [''repo'', ''src'', ''build'', ''javascript'']),
         (ios_command fresh_world, [''repo'', ''src'', ''build'', ''ios''])]"
proof -
  have c1: "fst (setup_handler linux_host ''all'' fresh_world) = Return PyNone"
    by code_simp
  have c2: "fst (setup_handler complaining_mac ''all'' fresh_world) = SysExit 1"
    by code_simp
  have c3: "spawned (snd (setup_handler complaining_mac ''all'' fresh_world)) =
        [(js_command complaining_mac, [''repo'', ''src'', ''build'', ''javascript'']),
         (ios_command fresh_world, [''repo'', ''src'', ''build'', ''ios''])]"
    by code_simp
  show ?thesis
    by (intro conjI; fact)
qed

end
